theory Spec2Isabelle
  imports
    Main
    "HOL-Library.Char_ord"
    "HOL-Library.List_Lexorder"
    "HOL-Library.Product_Lexorder"
    "HOL-Library.Multiset"
begin

section \<open>Tables of the GOLD aggregation (scripts/aggregate_gold.py)\<close>

text \<open>
  The script drives an SQL engine over temporary tables. A table is modelled as the
  list of its rows; the list order stands for the order in which the engine happens
  to deliver the rows, which SQL leaves open unless an \<^verbatim>\<open>ORDER BY\<close> fixes it.
  Titles and language codes are strings compared byte by byte (the engine's default
  binary collation, and Python's code-point order on UTF-8), ids and counts are
  integers. A nullable column is an \<open>option\<close>.

  One row of a SILVER partition file, with the columns that
  \<^verbatim>\<open>run_one_partition\<close> selects into the table \<^verbatim>\<open>s\<close>.
\<close>

record silver_row =
  sr_lang :: string
  sr_year :: int
  sr_month :: int
  sr_prev_title :: "string option"
  sr_curr_title :: "string option"
  sr_n :: int

text \<open>One row of the per-language dimension (tables \<^verbatim>\<open>dim\<close>, \<^verbatim>\<open>dim_idx\<close>).\<close>

record dim_row =
  d_id :: int
  d_title :: string

text \<open>One row of \<^verbatim>\<open>s_ids\<close>: the partition with titles replaced by ids.\<close>

record sid_row =
  i_lang :: string
  i_year :: int
  i_month :: int
  i_prev_id :: "int option"
  i_curr_id :: int
  i_n :: int

record pop_row =
  p_lang :: string
  p_year :: int
  p_month :: int
  p_curr_id :: int
  p_total_clicks :: int

record top_row =
  t_lang :: string
  t_year :: int
  t_month :: int
  t_curr_id :: int
  t_total_clicks :: int
  t_rn :: int

record ref_row =
  r_lang :: string
  r_year :: int
  r_month :: int
  r_curr_id :: int
  r_prev_id :: int
  r_clicks_from_prev :: int
  r_rn :: int

record edge_row =
  e_lang :: string
  e_year :: int
  e_month :: int
  e_prev_id :: int
  e_curr_id :: int
  e_total_transitions :: int

subsection \<open>The relational operators the queries use\<close>

text \<open>\<^verbatim>\<open>a JOIN b ON p\<close>: every pair of rows that satisfies \<open>p\<close>.\<close>

definition join_on :: "('a \<Rightarrow> 'b \<Rightarrow> bool) \<Rightarrow> 'a list \<Rightarrow> 'b list \<Rightarrow> ('a \<times> 'b) list" where
  "join_on p xs ys = concat (map (\<lambda>x. map (Pair x) (filter (p x) ys)) xs)"

text \<open>
  \<^verbatim>\<open>a LEFT JOIN b ON p\<close>: as the join, and a left row without partner is kept
  once with the right side null.
\<close>

definition left_join_on ::
  "('a \<Rightarrow> 'b \<Rightarrow> bool) \<Rightarrow> 'a list \<Rightarrow> 'b list \<Rightarrow> ('a \<times> 'b option) list" where
  "left_join_on p xs ys =
     concat (map (\<lambda>x. case filter (p x) ys of
                         [] \<Rightarrow> [(x, None)]
                       | m # ms \<Rightarrow> map (\<lambda>y. (x, Some y)) (m # ms)) xs)"

text \<open>\<^verbatim>\<open>SELECT k, SUM(v) ... GROUP BY k\<close>: one row per distinct key.\<close>

definition group_sum :: "('a \<Rightarrow> 'k) \<Rightarrow> ('a \<Rightarrow> int) \<Rightarrow> 'a list \<Rightarrow> ('k \<times> int) list" where
  "group_sum key val xs =
     map (\<lambda>k. (k, sum_list (map val (filter (\<lambda>x. key x = k) xs)))) (remdups (map key xs))"

text \<open>
  \<^verbatim>\<open>ROW_NUMBER() OVER (ORDER BY k)\<close> on one window partition: the rows sorted by
  the key and numbered from 1. The sort is stable, so rows with equal keys keep the
  order in which the engine delivered them: the query names no further criterion.
\<close>

definition row_number :: "('a \<Rightarrow> 'k::linorder) \<Rightarrow> 'a list \<Rightarrow> (int \<times> 'a) list" where
  "row_number key xs = zip (map int [1..<Suc (length xs)]) (sort_key key xs)"

text \<open>\<^verbatim>\<open>ROW_NUMBER() OVER (PARTITION BY g ORDER BY k)\<close>: the same in every group.\<close>

definition row_number_by ::
  "('a \<Rightarrow> 'g) \<Rightarrow> ('a \<Rightarrow> 'k::linorder) \<Rightarrow> 'a list \<Rightarrow> (int \<times> 'a) list" where
  "row_number_by grp key xs =
     concat (map (\<lambda>g. row_number key (filter (\<lambda>x. grp x = g) xs)) (remdups (map grp xs)))"

text \<open>\<^verbatim>\<open>MAX(c)\<close> over a column: null on the empty table.\<close>

fun sql_max :: "int list \<Rightarrow> int option" where
  "sql_max [] = None"
| "sql_max (x # xs) = Some (fold max xs x)"

definition coalesce :: "'a option \<Rightarrow> 'a \<Rightarrow> 'a" where
  "coalesce v d = (case v of None \<Rightarrow> d | Some x \<Rightarrow> x)"

section \<open>The dimension of one language: \<^verbatim>\<open>update_dim_with_partition\<close>\<close>

text \<open>
  The queries of \<^verbatim>\<open>update_dim_with_partition\<close>, one definition per temporary
  table, over the tables \<^verbatim>\<open>s\<close> and \<^verbatim>\<open>dim\<close> (\<^verbatim>\<open>dim_idx\<close> is a copy of \<^verbatim>\<open>dim\<close>).
\<close>

definition part_titles_all :: "silver_row list \<Rightarrow> string list" where
  "part_titles_all s = List.map_filter sr_curr_title s @ List.map_filter sr_prev_title s"

definition part_titles :: "silver_row list \<Rightarrow> string list" where
  "part_titles s = remdups (part_titles_all s)"

text \<open>
  The anti-join: \<^verbatim>\<open>d.id IS NULL\<close> holds exactly for the rows the left join padded,
  since the \<open>id\<close> column of the dimension holds no null.
\<close>

definition new_titles :: "dim_row list \<Rightarrow> silver_row list \<Rightarrow> string list" where
  "new_titles dim_idx s =
     map fst (filter (\<lambda>(p, d). map_option d_id d = None)
                (left_join_on (\<lambda>p d. p = d_title d) (part_titles s) dim_idx))"

definition base_id :: "dim_row list \<Rightarrow> int" where
  "base_id dim = coalesce (sql_max (map d_id dim)) 0"

definition dim_new :: "dim_row list \<Rightarrow> silver_row list \<Rightarrow> dim_row list" where
  "dim_new dim s =
     map (\<lambda>(rn, title). \<lparr>d_id = rn + base_id dim, d_title = title\<rparr>)
       (row_number (\<lambda>title. title) (remdups (new_titles dim s)))"

definition dim_merged :: "dim_row list \<Rightarrow> silver_row list \<Rightarrow> dim_row list" where
  "dim_merged dim s = dim @ dim_new dim s"

section \<open>The fact tables: the queries of \<^verbatim>\<open>compute_and_write_outputs\<close>\<close>

text \<open>
  \<^verbatim>\<open>s_ids\<close>: the inner join on \<open>curr_title\<close> and the left join on \<open>prev_title\<close>.
  A comparison with a null title is never true.
\<close>

definition s_ids :: "silver_row list \<Rightarrow> dim_row list \<Rightarrow> sid_row list" where
  "s_ids s dim_idx =
     map (\<lambda>((r, dc), dp).
            \<lparr>i_lang = sr_lang r, i_year = sr_year r, i_month = sr_month r,
             i_prev_id = map_option d_id dp, i_curr_id = d_id dc, i_n = sr_n r\<rparr>)
       (left_join_on (\<lambda>(r, dc) dp. sr_prev_title r = Some (d_title dp))
          (join_on (\<lambda>r dc. sr_curr_title r = Some (d_title dc)) s dim_idx) dim_idx)"

definition q_pop :: "sid_row list \<Rightarrow> pop_row list" where
  "q_pop ids =
     map (\<lambda>((l, y, m, c), total).
            \<lparr>p_lang = l, p_year = y, p_month = m, p_curr_id = c, p_total_clicks = total\<rparr>)
       (group_sum (\<lambda>r. (i_lang r, i_year r, i_month r, i_curr_id r)) i_n ids)"

text \<open>
  \<^verbatim>\<open>q_top\<close>: \<^verbatim>\<open>ORDER BY total_clicks DESC\<close> is the ascending order of the negated
  count; \<^verbatim>\<open>QUALIFY rn <= topn\<close> keeps the first ranks.
\<close>

definition q_top :: "int \<Rightarrow> sid_row list \<Rightarrow> top_row list" where
  "q_top topn ids =
     map (\<lambda>(rn, p).
            \<lparr>t_lang = p_lang p, t_year = p_year p, t_month = p_month p,
             t_curr_id = p_curr_id p, t_total_clicks = p_total_clicks p, t_rn = rn\<rparr>)
       (filter (\<lambda>(rn, p). rn \<le> topn)
          (row_number_by (\<lambda>p. (p_lang p, p_year p, p_month p)) (\<lambda>p. - p_total_clicks p)
             (q_pop ids)))"

text \<open>The rows of \<^verbatim>\<open>s_ids\<close> with \<^verbatim>\<open>prev_id IS NOT NULL\<close>, paired with that id.\<close>

definition with_prev :: "sid_row list \<Rightarrow> (sid_row \<times> int) list" where
  "with_prev ids = List.map_filter (\<lambda>r. map_option (Pair r) (i_prev_id r)) ids"

definition q_ref :: "int \<Rightarrow> int \<Rightarrow> sid_row list \<Rightarrow> ref_row list" where
  "q_ref topm min_ref ids =
     map (\<lambda>(rn, ((l, y, m, c, p), clicks)).
            \<lparr>r_lang = l, r_year = y, r_month = m, r_curr_id = c, r_prev_id = p,
             r_clicks_from_prev = clicks, r_rn = rn\<rparr>)
       (filter (\<lambda>(rn, a). rn \<le> topm)
          (row_number_by (\<lambda>((l, y, m, c, p), clicks). (l, y, m, c))
             (\<lambda>(k, clicks). - clicks)
             (filter (\<lambda>(k, clicks). clicks \<ge> min_ref)
                (group_sum (\<lambda>(r, p). (i_lang r, i_year r, i_month r, i_curr_id r, p))
                   (\<lambda>(r, p). i_n r) (with_prev ids)))))"

definition q_edges :: "int \<Rightarrow> sid_row list \<Rightarrow> edge_row list" where
  "q_edges min_edges ids =
     map (\<lambda>((l, y, m, p, c), total).
            \<lparr>e_lang = l, e_year = y, e_month = m, e_prev_id = p, e_curr_id = c,
             e_total_transitions = total\<rparr>)
       (filter (\<lambda>(k, total). total \<ge> min_edges)
          (group_sum (\<lambda>(r, p). (i_lang r, i_year r, i_month r, p, i_curr_id r))
             (\<lambda>(r, p). i_n r) (with_prev ids)))"

section \<open>Files, paths, the log and exceptions\<close>

text \<open>
  A SILVER partition file is known by what \<^verbatim>\<open>parse_partition_from_path\<close> reads from
  its path, \<^verbatim>\<open>lang=../year=../month=../data.parquet\<close>. The paths come from that glob,
  and \<^verbatim>\<open>main\<close> parses every one of them while it groups them by language, before any
  lane starts; the model starts from the parsed paths.
\<close>

record silver_file =
  sf_lang :: string
  sf_year :: int
  sf_month :: int

text \<open>
  A path under the GOLD root: \<^verbatim>\<open>outputs_for\<close> builds
  \<^verbatim>\<open>name/lang=../year=../month=../data.parquet\<close>, \<^verbatim>\<open>dim_path_for\<close> builds
  \<^verbatim>\<open>dimensions/articles/lang=../dict.parquet\<close>. The last constructor is an output of
  scripts/build_gold_specifics.py: topic, language, and year and month where the
  topic has them.
\<close>

datatype path =
    Fact_Path string string int int
  | Dim_Path string
  | Specifics_Path string string "int option" "int option"

text \<open>
  What a Parquet file holds. The rollups of build_gold_specifics.py are evaluated by
  the engine over all partitions of a language; such a file is represented by the
  label of the step that wrote it, the title expressions put into its query and the
  number of rows the query keeps.
\<close>

datatype table =
    Dim_Table "dim_row list"
  | Pop_Table "pop_row list"
  | Top_Table "top_row list"
  | Ref_Table "ref_row list"
  | Edges_Table "edge_row list"
  | Rollup string "string list" int

text \<open>
  A file on disk: of size zero, of positive size but not readable as Parquet, or a
  Parquet file, which is never of size zero since the format has a header.
\<close>

datatype disk_file = Zero_Bytes | Garbage | Parquet table

text \<open>\<^verbatim>\<open>os.path.getsize(p) > 0\<close>.\<close>

fun getsize_pos :: "disk_file \<Rightarrow> bool" where
  "getsize_pos Zero_Bytes = False"
| "getsize_pos Garbage = True"
| "getsize_pos (Parquet t) = True"

text \<open>The exceptions of the engine and of Python that the scripts can meet.\<close>

datatype exn = IO_Error | Binder_Error | Key_Error

text \<open>The lines the scripts print.\<close>

datatype event =
    Log_Skip string int int
  | Log_Start string int int "string list"
  | Log_Write string path
  | Log_Ok string int int
  | Log_Error string int int
  | Log_Warn_No_Data string string
  | Log_Warn_No_Title string string
  | Log_Skip_Step string string

text \<open>
  The world of one run: the SILVER files (read only; \<open>None\<close> is a file the engine
  cannot read), the files under the GOLD root, the paths on which the engine's
  \<^verbatim>\<open>COPY\<close> fails, and the standard output.
\<close>

record world =
  silver_fs :: "silver_file \<Rightarrow> silver_row list option"
  gold_fs :: "path \<Rightarrow> disk_file option"
  copy_fails :: "path set"
  stdout :: "event list"

text \<open>
  A call that may raise returns the world it leaves and either the exception or its
  value; \<open>then_do\<close> runs the next statement unless the first one raised.
\<close>

definition then_do ::
  "world \<times> (exn + 'a) \<Rightarrow> (world \<Rightarrow> 'a \<Rightarrow> world \<times> (exn + 'b)) \<Rightarrow> world \<times> (exn + 'b)" where
  "then_do r f = (case r of (w, Inl e) \<Rightarrow> (w, Inl e) | (w, Inr a) \<Rightarrow> f w a)"

text \<open>
  \<^verbatim>\<open>atomic_copy_query_to_parquet\<close>: the query result is copied to a temporary file,
  which then replaces the output file, and the line is printed. The temporary file
  is not part of the model; a failing \<^verbatim>\<open>COPY\<close> leaves the output file as it was.
\<close>

definition atomic_copy_query_to_parquet ::
  "world \<Rightarrow> table \<Rightarrow> path \<Rightarrow> string \<Rightarrow> world \<times> (exn + unit)" where
  "atomic_copy_query_to_parquet w query out_file label =
     (if out_file \<in> copy_fails w then (w, Inl IO_Error)
      else (w\<lparr>gold_fs := (gold_fs w)(out_file \<mapsto> Parquet query),
              stdout := stdout w @ [Log_Write label out_file]\<rparr>, Inr ()))"

definition outputs_for :: "string \<Rightarrow> int \<Rightarrow> int \<Rightarrow> (string \<times> path) list" where
  "outputs_for lang year month =
     (let base = (\<lambda>name. Fact_Path name lang year month) in
      [(''article_popularity'', base ''article_popularity''),
       (''article_top'', base ''article_top''),
       (''referrers_top'', base ''referrers_top''),
       (''edges_monthly'', base ''edges_monthly'')])"

definition dim_path_for :: "string \<Rightarrow> path" where
  "dim_path_for lang = Dim_Path lang"

text \<open>
  \<^verbatim>\<open>missing_outputs\<close>: the keys whose file does not exist or has size zero, in the
  order of the dictionary. (The source also reports a key as missing when the size
  check raises \<^verbatim>\<open>OSError\<close>; the model has no such file.)
\<close>

definition missing_outputs :: "world \<Rightarrow> (string \<times> path) list \<Rightarrow> string list" where
  "missing_outputs w paths =
     map fst (filter (\<lambda>(k, p). case gold_fs w p of None \<Rightarrow> True | Some f \<Rightarrow> \<not> getsize_pos f) paths)"

text \<open>Python's \<^verbatim>\<open>d[k]\<close> on a dictionary kept as a list of items.\<close>

definition dict_get :: "(string \<times> 'v) list \<Rightarrow> string \<Rightarrow> exn + 'v" where
  "dict_get d k = (case map_of d k of None \<Rightarrow> Inl Key_Error | Some v \<Rightarrow> Inr v)"

section \<open>One partition: \<^verbatim>\<open>run_one_partition\<close>\<close>

text \<open>
  \<^verbatim>\<open>load_or_init_dim\<close>: the dictionary file if it exists with positive size, the
  empty dimension otherwise. The query names the columns \<open>id\<close> and \<open>title\<close>, so a
  Parquet file of another table does not bind, and a file that is no Parquet file
  cannot be read.
\<close>

definition load_or_init_dim :: "world \<Rightarrow> path \<Rightarrow> world \<times> (exn + dim_row list)" where
  "load_or_init_dim w dim_file =
     (case gold_fs w dim_file of
        None \<Rightarrow> (w, Inr [])
      | Some f \<Rightarrow>
          if getsize_pos f then
            (case f of
               Parquet (Dim_Table rows) \<Rightarrow> (w, Inr rows)
             | Parquet _ \<Rightarrow> (w, Inl Binder_Error)
             | _ \<Rightarrow> (w, Inl IO_Error))
          else (w, Inr []))"

text \<open>
  \<^verbatim>\<open>update_dim_with_partition\<close>: the merged dimension is written to the dictionary
  file and becomes the tables \<^verbatim>\<open>dim\<close> and \<^verbatim>\<open>dim_idx\<close> of the session.
\<close>

definition update_dim_with_partition ::
  "world \<Rightarrow> dim_row list \<Rightarrow> silver_row list \<Rightarrow> string \<Rightarrow> path \<Rightarrow> world \<times> (exn + dim_row list)" where
  "update_dim_with_partition w dim s lang dim_file =
     then_do
       (atomic_copy_query_to_parquet w (Dim_Table (dim_merged dim s)) dim_file
          (''article_dim['' @ lang @ '']''))
       (\<lambda>w u. (w, Inr (dim_merged dim s)))"

definition write_output ::
  "world \<Rightarrow> (string \<times> path) list \<Rightarrow> string \<Rightarrow> table \<Rightarrow> world \<times> (exn + unit)" where
  "write_output w outs name query =
     (case dict_get outs name of
        Inl e \<Rightarrow> (w, Inl e)
      | Inr out_file \<Rightarrow> atomic_copy_query_to_parquet w query out_file name)"

definition compute_and_write_outputs ::
  "world \<Rightarrow> silver_row list \<Rightarrow> dim_row list \<Rightarrow> (string \<times> path) list \<Rightarrow>
   int \<Rightarrow> int \<Rightarrow> int \<Rightarrow> int \<Rightarrow> bool \<Rightarrow> bool \<Rightarrow> world \<times> (exn + unit)" where
  "compute_and_write_outputs w s dim_idx outs topn topm min_edges min_ref write_edges write_ref =
     (let ids = s_ids s dim_idx in
      then_do (write_output w outs ''article_popularity'' (Pop_Table (q_pop ids))) (\<lambda>w u.
      then_do (write_output w outs ''article_top'' (Top_Table (q_top topn ids))) (\<lambda>w u.
      then_do (if write_ref
               then write_output w outs ''referrers_top'' (Ref_Table (q_ref topm min_ref ids))
               else (w, Inr ())) (\<lambda>w u.
      if write_edges
      then write_output w outs ''edges_monthly'' (Edges_Table (q_edges min_edges ids))
      else (w, Inr ())))))"

text \<open>The table \<^verbatim>\<open>s\<close>: the rows of the partition file with \<^verbatim>\<open>n > 0\<close>.\<close>

definition read_silver :: "world \<Rightarrow> silver_file \<Rightarrow> world \<times> (exn + silver_row list)" where
  "read_silver w silver_file =
     (case silver_fs w silver_file of
        None \<Rightarrow> (w, Inl IO_Error)
      | Some rows \<Rightarrow> (w, Inr (filter (\<lambda>r. 0 < sr_n r) rows)))"

text \<open>The list \<^verbatim>\<open>to_write\<close> that \<^verbatim>\<open>run_one_partition\<close> computes first.\<close>

definition to_write_of ::
  "world \<Rightarrow> (string \<times> path) list \<Rightarrow> bool \<Rightarrow> bool \<Rightarrow> bool \<Rightarrow> string list" where
  "to_write_of w outs write_edges write_ref skip_existing =
     (let to_write = (if \<not> skip_existing then map fst outs else missing_outputs w outs);
          to_write = (if \<not> write_edges \<and> ''edges_monthly'' \<in> set to_write
                      then remove1 ''edges_monthly'' to_write else to_write);
          to_write = (if \<not> write_ref \<and> ''referrers_top'' \<in> set to_write
                      then remove1 ''referrers_top'' to_write else to_write)
      in to_write)"

definition run_one_partition ::
  "world \<Rightarrow> silver_file \<Rightarrow> int \<Rightarrow> int \<Rightarrow> int \<Rightarrow> int \<Rightarrow> bool \<Rightarrow> bool \<Rightarrow> bool \<Rightarrow>
   world \<times> (exn + string)" where
  "run_one_partition w silver_file topn topm min_edges min_ref write_edges write_ref skip_existing =
     (let lang = sf_lang silver_file; year = sf_year silver_file; month = sf_month silver_file;
          outs = outputs_for lang year month;
          to_write = to_write_of w outs write_edges write_ref skip_existing
      in if skip_existing \<and> to_write = []
         then (w\<lparr>stdout := stdout w @ [Log_Skip lang year month]\<rparr>, Inr ''skipped'')
         else
           then_do (read_silver w silver_file) (\<lambda>w s.
           let dim_file = dim_path_for lang in
           then_do (load_or_init_dim w dim_file) (\<lambda>w dim.
           then_do (update_dim_with_partition w dim s lang dim_file) (\<lambda>w dim_idx.
           let w = w\<lparr>stdout := stdout w @ [Log_Start lang year month to_write]\<rparr> in
           then_do (compute_and_write_outputs w s dim_idx outs topn topm min_edges min_ref
                      write_edges write_ref) (\<lambda>w u.
           (w\<lparr>stdout := stdout w @ [Log_Ok lang year month]\<rparr>, Inr ''processed''))))))"

section \<open>One language: \<^verbatim>\<open>process_lang\<close>\<close>

text \<open>
  The loop body with its \<^verbatim>\<open>try\<close>: a returned status is counted as processed or
  skipped, an exception prints the error line and is counted as skipped.
\<close>

definition process_one ::
  "string \<Rightarrow> int \<Rightarrow> int \<Rightarrow> int \<Rightarrow> int \<Rightarrow> bool \<Rightarrow> bool \<Rightarrow> bool \<Rightarrow>
   world \<times> nat \<times> nat \<Rightarrow> silver_file \<Rightarrow> world \<times> nat \<times> nat" where
  "process_one lang topn topm min_edges min_ref write_edges write_ref skip_existing acc f =
     (case acc of (w, processed, skipped) \<Rightarrow>
        (case run_one_partition w f topn topm min_edges min_ref write_edges write_ref skip_existing of
           (w', Inr status) \<Rightarrow>
             (w', processed + (if status = ''processed'' then 1 else 0),
                  skipped + (if status \<noteq> ''processed'' then 1 else 0))
         | (w', Inl e) \<Rightarrow>
             (w'\<lparr>stdout := stdout w' @ [Log_Error lang (sf_year f) (sf_month f)]\<rparr>,
              processed, skipped + 1)))"

definition process_lang ::
  "world \<Rightarrow> string \<Rightarrow> silver_file list \<Rightarrow> int \<Rightarrow> int \<Rightarrow> int \<Rightarrow> int \<Rightarrow> bool \<Rightarrow> bool \<Rightarrow> bool \<Rightarrow>
   world \<times> nat \<times> nat" where
  "process_lang w lang files topn topm min_edges min_ref write_edges write_ref skip_existing =
     foldl (process_one lang topn topm min_edges min_ref write_edges write_ref skip_existing)
       (w, 0, 0) (sort_key (\<lambda>p. (sf_year p, sf_month p)) files)"

section \<open>The partition locator: \<^verbatim>\<open>pick_latest_month\<close>\<close>

definition pick_latest_month :: "silver_file list \<Rightarrow> silver_file list" where
  "pick_latest_month files =
     (case map (\<lambda>f. (sf_year f, sf_month f)) files of
        [] \<Rightarrow> files
      | ym # yms \<Rightarrow>
          (case fold max yms ym of (my, mm) \<Rightarrow>
             sort_key sf_lang (filter (\<lambda>f. (sf_year f, sf_month f) = (my, mm)) files)))"

section \<open>The derived insights: scripts/build_gold_specifics.py\<close>

definition title_expr :: "string set \<Rightarrow> string \<Rightarrow> string" where
  "title_expr cols prefix =
     (if prefix @ ''_title'' \<in> cols then prefix @ ''_title''
      else if prefix @ ''_name'' \<in> cols then prefix @ ''_name''
      else if prefix @ ''_id'' \<in> cols then ''CAST('' @ prefix @ ''_id AS VARCHAR)''
      else ''NULL'')"

text \<open>
  The builders. What the engine answers before the columns are probed is an argument:
  the years found (\<open>years\<close>), whether there is any row (\<open>has_rows\<close>), the latest
  period (\<open>latest\<close>), and the columns of the source files (\<open>cols\<close>, the result of
  \<^verbatim>\<open>parquet_columns\<close>). The script has its own copy of
  \<^verbatim>\<open>atomic_copy_query_to_parquet\<close>, with the same steps; the label of a written line
  is the name of the step.
\<close>

definition log_line :: "world \<Rightarrow> event \<Rightarrow> world" where
  "log_line w e = w\<lparr>stdout := stdout w @ [e]\<rparr>"

fun top10_years :: "world \<Rightarrow> string \<Rightarrow> bool \<Rightarrow> string \<Rightarrow> int list \<Rightarrow> world \<times> (exn + unit)" where
  "top10_years w lang overwrite curr_title_sql [] = (w, Inr ())"
| "top10_years w lang overwrite curr_title_sql (y # ys) =
     (let out = Specifics_Path ''top10_by_year'' lang (Some y) None in
      if gold_fs w out \<noteq> None \<and> \<not> overwrite
      then top10_years (log_line w (Log_Skip_Step ''top10_by_year'' lang)) lang overwrite
             curr_title_sql ys
      else then_do
             (atomic_copy_query_to_parquet w (Rollup ''top10_by_year'' [curr_title_sql] 10) out
                ''top10_by_year'')
             (\<lambda>w u. top10_years w lang overwrite curr_title_sql ys))"

definition build_top10_by_year ::
  "world \<Rightarrow> string \<Rightarrow> bool \<Rightarrow> int list \<Rightarrow> string set \<Rightarrow> world \<times> (exn + unit)" where
  "build_top10_by_year w lang overwrite years cols =
     (if years = [] then (log_line w (Log_Warn_No_Data ''top10_by_year'' lang), Inr ())
      else let curr_title_sql = title_expr cols ''curr'' in
        if curr_title_sql = ''NULL''
        then (log_line w (Log_Warn_No_Title ''top10_by_year'' lang), Inr ())
        else top10_years w lang overwrite curr_title_sql years)"

definition build_all_time_top ::
  "world \<Rightarrow> string \<Rightarrow> int \<Rightarrow> bool \<Rightarrow> bool \<Rightarrow> string set \<Rightarrow> world \<times> (exn + unit)" where
  "build_all_time_top w lang topn overwrite has_rows cols =
     (let out = Specifics_Path ''all_time_top'' lang None None in
      if gold_fs w out \<noteq> None \<and> \<not> overwrite
      then (log_line w (Log_Skip_Step ''all_time_top'' lang), Inr ())
      else if \<not> has_rows then (log_line w (Log_Warn_No_Data ''all_time_top'' lang), Inr ())
      else let curr_title_sql = title_expr cols ''curr'' in
        if curr_title_sql = ''NULL''
        then (log_line w (Log_Warn_No_Title ''all_time_top'' lang), Inr ())
        else atomic_copy_query_to_parquet w (Rollup ''all_time_top'' [curr_title_sql] topn) out
               ''all_time_top'')"

definition build_edges_6m ::
  "world \<Rightarrow> string \<Rightarrow> int \<Rightarrow> bool \<Rightarrow> (int \<times> int) option \<Rightarrow> string set \<Rightarrow> world \<times> (exn + unit)" where
  "build_edges_6m w lang topn_pairs overwrite latest cols =
     (case latest of
        None \<Rightarrow> (log_line w (Log_Warn_No_Data ''edges_6m'' lang), Inr ())
      | Some (y, m) \<Rightarrow>
          let out = Specifics_Path ''edges_6m'' lang (Some y) (Some m) in
          if gold_fs w out \<noteq> None \<and> \<not> overwrite
          then (log_line w (Log_Skip_Step ''edges_6m'' lang), Inr ())
          else let prev_title_sql = title_expr cols ''prev'';
                   curr_title_sql = title_expr cols ''curr'' in
            if prev_title_sql = ''NULL'' \<or> curr_title_sql = ''NULL''
            then (log_line w (Log_Warn_No_Title ''edges_6m'' lang), Inr ())
            else atomic_copy_query_to_parquet w
                   (Rollup ''edges_6m'' [prev_title_sql, curr_title_sql] topn_pairs) out
                   ''edges_6m'')"

definition build_trending_mom ::
  "world \<Rightarrow> string \<Rightarrow> int \<Rightarrow> bool \<Rightarrow> (int \<times> int) option \<Rightarrow> string set \<Rightarrow> world \<times> (exn + unit)" where
  "build_trending_mom w lang topn overwrite latest cols =
     (case latest of
        None \<Rightarrow> (log_line w (Log_Warn_No_Data ''trending_mom'' lang), Inr ())
      | Some (y, m) \<Rightarrow>
          let out = Specifics_Path ''trending_mom'' lang (Some y) (Some m) in
          if gold_fs w out \<noteq> None \<and> \<not> overwrite
          then (log_line w (Log_Skip_Step ''trending_mom'' lang), Inr ())
          else let curr_title_sql = title_expr cols ''curr'' in
            if curr_title_sql = ''NULL''
            then (log_line w (Log_Warn_No_Title ''trending_mom'' lang), Inr ())
            else atomic_copy_query_to_parquet w (Rollup ''trending_mom'' [curr_title_sql] topn)
                   out ''trending_mom'')"

definition build_referrers_6m ::
  "world \<Rightarrow> string \<Rightarrow> int \<Rightarrow> bool \<Rightarrow> (int \<times> int) option \<Rightarrow> string set \<Rightarrow> world \<times> (exn + unit)" where
  "build_referrers_6m w lang topm_referrers overwrite latest cols =
     (case latest of
        None \<Rightarrow> (log_line w (Log_Warn_No_Data ''referrers_6m'' lang), Inr ())
      | Some (y, m) \<Rightarrow>
          let out = Specifics_Path ''referrers_6m'' lang (Some y) (Some m) in
          if gold_fs w out \<noteq> None \<and> \<not> overwrite
          then (log_line w (Log_Skip_Step ''referrers_6m'' lang), Inr ())
          else let curr_title_sql = title_expr cols ''curr'';
                   prev_title_sql = title_expr cols ''prev'' in
            if curr_title_sql = ''NULL'' \<or> prev_title_sql = ''NULL''
            then (log_line w (Log_Warn_No_Title ''referrers_6m'' lang), Inr ())
            else atomic_copy_query_to_parquet w
                   (Rollup ''referrers_6m'' [curr_title_sql, prev_title_sql] topm_referrers) out
                   ''referrers_6m'')"

section \<open>Predicates and example inputs used in the statements\<close>

text \<open>
  The dictionary invariant: no title twice and no id twice, so that titles and ids
  are in bijection.
\<close>

definition dim_bijective :: "dim_row list \<Rightarrow> bool" where
  "dim_bijective dim \<longleftrightarrow> distinct (map d_title dim) \<and> distinct (map d_id dim)"

text \<open>The three records of the end-to-end scenario: language en, January 2024.\<close>

definition scenario_rows :: "silver_row list" where
  "scenario_rows =
     [\<lparr>sr_lang = ''en'', sr_year = 2024, sr_month = 1, sr_prev_title = None,
       sr_curr_title = Some ''Paris'', sr_n = 100\<rparr>,
      \<lparr>sr_lang = ''en'', sr_year = 2024, sr_month = 1, sr_prev_title = Some ''Paris'',
       sr_curr_title = Some ''London'', sr_n = 50\<rparr>,
      \<lparr>sr_lang = ''en'', sr_year = 2024, sr_month = 1, sr_prev_title = None,
       sr_curr_title = Some ''London'', sr_n = 30\<rparr>]"

text \<open>A dictionary that already knows London, with ids that are not consecutive.\<close>

definition berlin_dim :: "dim_row list" where
  "berlin_dim = [\<lparr>d_id = 7, d_title = ''London''\<rparr>, \<lparr>d_id = 4, d_title = ''Berlin''\<rparr>]"

text \<open>Partition files of three languages; only two of them reach February 2024.\<close>

definition four_files :: "silver_file list" where
  "four_files =
     [\<lparr>sf_lang = ''en'', sf_year = 2024, sf_month = 1\<rparr>,
      \<lparr>sf_lang = ''en'', sf_year = 2024, sf_month = 2\<rparr>,
      \<lparr>sf_lang = ''es'', sf_year = 2024, sf_month = 1\<rparr>,
      \<lparr>sf_lang = ''de'', sf_year = 2024, sf_month = 2\<rparr>]"

text \<open>None of the three columns a title expression can be built from is present.\<close>

definition no_title_column :: "string set \<Rightarrow> string \<Rightarrow> bool" where
  "no_title_column cols prefix \<longleftrightarrow>
     prefix @ ''_title'' \<notin> cols \<and> prefix @ ''_name'' \<notin> cols \<and> prefix @ ''_id'' \<notin> cols"

text \<open>A world with no file at all, and the columns of a source without any title column.\<close>

definition empty_world :: world where
  "empty_world = \<lparr>silver_fs = (\<lambda>f. None), gold_fs = (\<lambda>p. None), copy_fails = {}, stdout = []\<rparr>"

definition bare_cols :: "string set" where
  "bare_cols = {''lang'', ''year'', ''month'', ''total_clicks''}"

text \<open>
  The lines of a partition that is processed to its end: the dictionary, the start
  line with the list \<^verbatim>\<open>to_write\<close>, the facts, the closing line.
\<close>

definition fact_lines :: "string \<Rightarrow> int \<Rightarrow> int \<Rightarrow> bool \<Rightarrow> bool \<Rightarrow> event list" where
  "fact_lines lang year month write_ref write_edges =
     [Log_Write ''article_popularity'' (Fact_Path ''article_popularity'' lang year month),
      Log_Write ''article_top'' (Fact_Path ''article_top'' lang year month)]
     @ (if write_ref
        then [Log_Write ''referrers_top'' (Fact_Path ''referrers_top'' lang year month)] else [])
     @ (if write_edges
        then [Log_Write ''edges_monthly'' (Fact_Path ''edges_monthly'' lang year month)] else [])"

definition partition_lines ::
  "string \<Rightarrow> int \<Rightarrow> int \<Rightarrow> string list \<Rightarrow> bool \<Rightarrow> bool \<Rightarrow> event list" where
  "partition_lines lang year month to_write write_ref write_edges =
     Log_Write (''article_dim['' @ lang @ '']'') (Dim_Path lang)
     # Log_Start lang year month to_write
     # fact_lines lang year month write_ref write_edges
     @ [Log_Ok lang year month]"

text \<open>
  The line that closes the work on a partition names its year and month; the three
  kinds of closing line are what the counters of \<^verbatim>\<open>process_lang\<close> count.
\<close>

fun ended :: "event \<Rightarrow> (int \<times> int) option" where
  "ended (Log_Skip l y m) = Some (y, m)"
| "ended (Log_Ok l y m) = Some (y, m)"
| "ended (Log_Error l y m) = Some (y, m)"
| "ended e = None"

fun is_ok :: "event \<Rightarrow> bool" where
  "is_ok (Log_Ok l y m) = True"
| "is_ok e = False"

fun is_skip :: "event \<Rightarrow> bool" where
  "is_skip (Log_Skip l y m) = True"
| "is_skip e = False"

fun is_error :: "event \<Rightarrow> bool" where
  "is_error (Log_Error l y m) = True"
| "is_error e = False"

text \<open>
  A lane of three partitions: December 2023 cannot be read, January 2024 holds the
  scenario, February 2024 is empty. No GOLD file exists yet.
\<close>

definition en_dec :: silver_file where "en_dec = \<lparr>sf_lang = ''en'', sf_year = 2023, sf_month = 12\<rparr>"
definition en_jan :: silver_file where "en_jan = \<lparr>sf_lang = ''en'', sf_year = 2024, sf_month = 1\<rparr>"
definition en_feb :: silver_file where "en_feb = \<lparr>sf_lang = ''en'', sf_year = 2024, sf_month = 2\<rparr>"

definition scenario_world :: world where
  "scenario_world =
     \<lparr>silver_fs = (\<lambda>f. if f = en_jan then Some scenario_rows
                        else if f = en_feb then Some [] else None),
      gold_fs = (\<lambda>p. None), copy_fails = {}, stdout = []\<rparr>"

section \<open>The dictionary merge\<close>

lemmas eval_dim = dim_merged_def dim_new_def new_titles_def part_titles_def part_titles_all_def
  left_join_on_def row_number_def base_id_def coalesce_def List.map_filter_def

text \<open>The padded rows of a left join are the left rows without partner.\<close>

lemma left_join_anti:
  "map fst (filter (\<lambda>(p, d). map_option f d = None) (left_join_on q xs ys)) =
   filter (\<lambda>x. \<forall>y\<in>set ys. \<not> q x y) xs"
  by (induction xs) (auto simp: left_join_on_def filter_empty_conv split: list.splits)

lemma new_titles_eq:
  "new_titles dim s = filter (\<lambda>t. t \<notin> d_title ` set dim) (part_titles s)"
  unfolding new_titles_def left_join_anti by (rule filter_cong) auto

lemma sql_max_Max: "xs \<noteq> [] \<Longrightarrow> sql_max xs = Some (Max (set xs))"
proof (cases xs)
  case (Cons a list)
  then show ?thesis using Max.set_eq_fold[of a list] by simp
qed simp

lemma base_id_eq: "base_id dim = (if dim = [] then 0 else Max (d_id ` set dim))"
  by (simp add: base_id_def coalesce_def sql_max_Max)

lemma distinct_new_titles: "distinct (new_titles dim s)"
  by (simp add: new_titles_eq part_titles_def)

lemma set_new_titles: "set (new_titles dim s) = set (part_titles_all s) - d_title ` set dim"
  by (auto simp: new_titles_eq part_titles_def)

lemma set_part_titles_all:
  "set (part_titles_all s) =
   {t. \<exists>r\<in>set s. sr_curr_title r = Some t \<or> sr_prev_title r = Some t}"
  by (force simp: part_titles_all_def List.map_filter_def image_iff)

lemma row_number_fst: "map fst (row_number key xs) = map int [1..<Suc (length xs)]"
  by (simp add: row_number_def del: upt_Suc)

lemma row_number_snd: "map snd (row_number key xs) = sort_key key xs"
  by (simp add: row_number_def del: upt_Suc)

lemma dim_new_titles:
  "map d_title (dim_new dim s) =
   sorted_list_of_set (set (part_titles_all s) - d_title ` set dim)"
proof -
  have "map d_title (dim_new dim s) =
      map snd (row_number (\<lambda>t. t) (remdups (new_titles dim s)))"
    by (simp add: dim_new_def case_prod_unfold)
  also have "\<dots> = sort (new_titles dim s)"
    by (simp add: row_number_snd distinct_remdups_id[OF distinct_new_titles])
  also have "\<dots> = sorted_list_of_set (set (new_titles dim s))"
    by (simp add: sorted_list_of_set_sort_remdups distinct_remdups_id[OF distinct_new_titles])
  finally show ?thesis by (simp add: set_new_titles)
qed

lemma dim_new_ids:
  "map d_id (dim_new dim s) =
   map (\<lambda>k. base_id dim + 1 + int k) [0..<card (set (part_titles_all s) - d_title ` set dim)]"
proof -
  have "map d_id (dim_new dim s) =
      map (\<lambda>rn. rn + base_id dim) (map fst (row_number (\<lambda>t. t) (remdups (new_titles dim s))))"
    by (simp add: dim_new_def case_prod_unfold)
  also have "\<dots> = map (\<lambda>rn. rn + base_id dim) (map int [1..<Suc (length (new_titles dim s))])"
    by (simp add: row_number_fst distinct_remdups_id[OF distinct_new_titles] del: upt_Suc)
  also have "length (new_titles dim s) = card (set (part_titles_all s) - d_title ` set dim)"
    using distinct_card[OF distinct_new_titles, of dim s] by (simp add: set_new_titles)
  finally show ?thesis
    by (simp add: map_Suc_upt[symmetric] del: upt_Suc map_Suc_upt)
qed

lemma dim_new_eq:
  "dim_new dim s =
     map2 (\<lambda>k t. \<lparr>d_id = base_id dim + int k, d_title = t\<rparr>)
       [1..<Suc (card (set (part_titles_all s) - d_title ` set dim))]
       (sorted_list_of_set (set (part_titles_all s) - d_title ` set dim))"
proof -
  have len: "length (new_titles dim s) = card (set (part_titles_all s) - d_title ` set dim)"
    using distinct_card[OF distinct_new_titles, of dim s] by (simp add: set_new_titles)
  have srt: "sort (new_titles dim s) =
      sorted_list_of_set (set (part_titles_all s) - d_title ` set dim)"
    using sorted_list_of_set_sort_remdups[of "new_titles dim s"]
    by (simp add: distinct_remdups_id[OF distinct_new_titles] set_new_titles)
  show ?thesis
    unfolding dim_new_def row_number_def distinct_remdups_id[OF distinct_new_titles] len srt
    by (simp add: zip_map1 case_prod_unfold add.commute del: upt_Suc)
qed

lemma dim_new_id_gt:
  assumes "r \<in> set (dim_new dim s)" "r' \<in> set dim"
  shows "d_id r' < d_id r"
proof -
  from assms(1) have "d_id r \<in> set (map d_id (dim_new dim s))" by simp
  then obtain k where "d_id r = base_id dim + 1 + int k"
    unfolding dim_new_ids by auto
  moreover have "d_id r' \<le> base_id dim"
    using assms(2) by (auto simp: base_id_eq)
  ultimately show ?thesis by simp
qed

lemma distinct_dim_new_ids: "distinct (map d_id (dim_new dim s))"
  unfolding dim_new_ids by (simp add: distinct_map inj_on_def)

lemma distinct_dim_new_titles: "distinct (map d_title (dim_new dim s))"
  unfolding dim_new_titles by simp

lemma dim_merged_bijective:
  assumes "dim_bijective dim"
  shows "dim_bijective (dim_merged dim s)"
proof -
  have "set (map d_title dim) \<inter> set (map d_title (dim_new dim s)) = {}"
    unfolding dim_new_titles by auto
  moreover have "set (map d_id dim) \<inter> set (map d_id (dim_new dim s)) = {}"
    using dim_new_id_gt[of _ dim s] by fastforce
  ultimately show ?thesis
    using assms distinct_dim_new_ids[of dim s] distinct_dim_new_titles[of dim s]
    by (simp add: dim_bijective_def dim_merged_def)
qed

lemma foldl_dim_merged_bijective:
  "dim_bijective dim \<Longrightarrow> dim_bijective (foldl dim_merged dim ss)"
  by (induction ss arbitrary: dim) (simp_all add: dim_merged_bijective)

lemma foldl_dim_merged_prefix: "\<exists>ys. foldl dim_merged dim ss = dim @ ys"
proof (induction ss arbitrary: dim)
  case (Cons s ss)
  from Cons[of "dim_merged dim s"] show ?case by (auto simp: dim_merged_def)
qed simp

text \<open>
  C1. For every dictionary \<open>dim\<close> and every partition table \<open>s\<close>, the merge returns
  the old entries together with the new ones; the new entries are exactly the
  observed titles that the dictionary does not hold, in ascending order of title,
  numbered \<open>base + 1\<close>, \<open>base + 2\<close>, ... where \<open>base\<close> is the largest id of the
  dictionary, or 0 when the dictionary is empty. The new entries depend only on
  that base and on the set of new titles: two runs with the same base and the same
  set of new titles assign the same ids, in whatever order the rows came.
\<close>

theorem merge_assigns_new_ids:
  "set (dim_merged dim s) = set dim \<union> set (dim_new dim s) \<and>
   dim_new dim s =
     map2 (\<lambda>k t. \<lparr>d_id = base_id dim + int k, d_title = t\<rparr>)
       [1..<Suc (card (set (part_titles s) - d_title ` set dim))]
       (sorted_list_of_set (set (part_titles s) - d_title ` set dim)) \<and>
   base_id dim = (if dim = [] then 0 else Max (d_id ` set dim)) \<and>
   (\<forall>dim' s'. base_id dim' = base_id dim \<and>
        set (part_titles s') - d_title ` set dim' = set (part_titles s) - d_title ` set dim \<longrightarrow>
        dim_new dim' s' = dim_new dim s)"
proof -
  have "set (part_titles s) = set (part_titles_all s)" for s
    by (simp add: part_titles_def)
  then show ?thesis
    by (simp add: dim_merged_def dim_new_eq base_id_eq)
qed

theorem merge_assigns_new_ids_witness:
  "base_id (rev berlin_dim) = base_id berlin_dim \<and>
   set (part_titles (rev scenario_rows)) - d_title ` set (rev berlin_dim) =
     set (part_titles scenario_rows) - d_title ` set berlin_dim \<and>
   dim_new (rev berlin_dim) (rev scenario_rows) = dim_new berlin_dim scenario_rows \<and>
   dim_new berlin_dim scenario_rows = [\<lparr>d_id = 8, d_title = ''Paris''\<rparr>]"
proof -
  have h: "base_id (rev berlin_dim) = base_id berlin_dim \<and>
      set (part_titles (rev scenario_rows)) - d_title ` set (rev berlin_dim) =
      set (part_titles scenario_rows) - d_title ` set berlin_dim"
    by (simp add: eval_dim scenario_rows_def berlin_dim_def)
  have v: "dim_new berlin_dim scenario_rows = [\<lparr>d_id = 8, d_title = ''Paris''\<rparr>]"
    by (simp add: eval_dim scenario_rows_def berlin_dim_def)
  from merge_assigns_new_ids[of berlin_dim scenario_rows] h
  have "dim_new (rev berlin_dim) (rev scenario_rows) = dim_new berlin_dim scenario_rows"
    by blast
  with h v show ?thesis by simp
qed

text \<open>
  C2. Merges keep the dictionary invariants. A dictionary in which titles and ids
  are in bijection stays so after any sequence of merges, and so does the dictionary
  grown from the empty one; every entry present before the merges is present, as it
  was, after them; and every id a merge assigns is greater than every id the
  dictionary held before that merge.
\<close>

theorem merge_preserves_invariants:
  "(dim_bijective dim \<longrightarrow> dim_bijective (foldl dim_merged dim ss)) \<and>
   dim_bijective (foldl dim_merged [] ss) \<and>
   set dim \<subseteq> set (foldl dim_merged dim ss) \<and>
   (\<forall>r\<in>set (dim_new dim s). \<forall>r'\<in>set dim. d_id r' < d_id r)"
proof -
  have "dim_bijective []" by (simp add: dim_bijective_def)
  then have "dim_bijective (foldl dim_merged [] ss)"
    by (rule foldl_dim_merged_bijective)
  moreover have "set dim \<subseteq> set (foldl dim_merged dim ss)"
    using foldl_dim_merged_prefix[of dim ss] by auto
  ultimately show ?thesis
    using dim_new_id_gt[of _ dim s] foldl_dim_merged_bijective[of dim ss] by blast
qed

theorem merge_preserves_invariants_witness:
  "dim_bijective berlin_dim \<and>
   dim_bijective (foldl dim_merged berlin_dim [scenario_rows, rev scenario_rows]) \<and>
   \<lparr>d_id = 8, d_title = ''Paris''\<rparr> \<in> set (dim_new berlin_dim scenario_rows) \<and>
   \<lparr>d_id = 7, d_title = ''London''\<rparr> \<in> set berlin_dim \<and>
   d_id \<lparr>d_id = 7, d_title = ''London''\<rparr> < d_id \<lparr>d_id = 8, d_title = ''Paris''\<rparr>"
proof -
  have b: "dim_bijective berlin_dim"
    by (simp add: dim_bijective_def berlin_dim_def)
  have n: "\<lparr>d_id = 8, d_title = ''Paris''\<rparr> \<in> set (dim_new berlin_dim scenario_rows)"
    by (simp add: eval_dim scenario_rows_def berlin_dim_def)
  have o: "\<lparr>d_id = 7, d_title = ''London''\<rparr> \<in> set berlin_dim"
    by (simp add: berlin_dim_def)
  from merge_preserves_invariants[of berlin_dim "[scenario_rows, rev scenario_rows]" scenario_rows]
    b n o show ?thesis by blast
qed

section \<open>The latest-month filter\<close>

lemma fold_max_Max: "fold max ys (y::'a::linorder) = Max (set (y # ys))"
  using Max.set_eq_fold[of y ys] by simp

lemma pick_latest_month_eq:
  "pick_latest_month files =
   sort_key sf_lang
     (filter (\<lambda>f. \<forall>g\<in>set files. (sf_year g, sf_month g) \<le> (sf_year f, sf_month f)) files)"
proof (cases files)
  case Nil
  then show ?thesis by (simp add: pick_latest_month_def)
next
  case (Cons a as)
  define top where "top = Max (set (map (\<lambda>f. (sf_year f, sf_month f)) files))"
  have fin: "finite (set (map (\<lambda>f. (sf_year f, sf_month f)) files))" by simp
  have ne: "set (map (\<lambda>f. (sf_year f, sf_month f)) files) \<noteq> {}" using Cons by simp
  have top_in: "top \<in> set (map (\<lambda>f. (sf_year f, sf_month f)) files)"
    unfolding top_def using Max_in[OF fin ne] .
  have top_ge: "(sf_year g, sf_month g) \<le> top" if "g \<in> set files" for g
    unfolding top_def using that by (intro Max_ge) auto
  have split: "(case p of (my, mm) \<Rightarrow> h (my, mm)) = h p" for p :: "int \<times> int" and h :: "int \<times> int \<Rightarrow> silver_file list"
    by (cases p) simp
  have "pick_latest_month files =
      sort_key sf_lang (filter (\<lambda>f. (sf_year f, sf_month f) =
         fold max (map (\<lambda>f. (sf_year f, sf_month f)) as) (sf_year a, sf_month a)) files)"
    unfolding pick_latest_month_def Cons list.map list.case
    by (rule split)
  then have 1: "pick_latest_month files =
      sort_key sf_lang (filter (\<lambda>f. (sf_year f, sf_month f) = top) files)"
    unfolding top_def Cons fold_max_Max by simp
  have 2: "((sf_year f, sf_month f) = top) \<longleftrightarrow>
      (\<forall>g\<in>set files. (sf_year g, sf_month g) \<le> (sf_year f, sf_month f))"
    if "f \<in> set files" for f
  proof
    assume "(sf_year f, sf_month f) = top"
    then show "\<forall>g\<in>set files. (sf_year g, sf_month g) \<le> (sf_year f, sf_month f)"
      using top_ge by simp
  next
    assume a: "\<forall>g\<in>set files. (sf_year g, sf_month g) \<le> (sf_year f, sf_month f)"
    from top_in obtain g where "g \<in> set files" "top = (sf_year g, sf_month g)" by auto
    with a have "top \<le> (sf_year f, sf_month f)" by simp
    moreover have "(sf_year f, sf_month f) \<le> top" using top_ge[OF that] .
    ultimately show "(sf_year f, sf_month f) = top" by simp
  qed
  have "filter (\<lambda>f. (sf_year f, sf_month f) = top) files =
      filter (\<lambda>f. \<forall>g\<in>set files. (sf_year g, sf_month g) \<le> (sf_year f, sf_month f)) files"
    by (rule filter_cong) (simp_all add: 2)
  with 1 show ?thesis by simp
qed

text \<open>
  C10. \<^verbatim>\<open>pick_latest_month\<close> keeps exactly the files whose (year, month) is the
  greatest among all the files it is given, whatever their language, sorted by
  language; pairs are compared by year first and by month second. A language all of
  whose files are older than some file of the list has no file in the result.
\<close>

theorem pick_latest_month_keeps_global_maximum:
  "mset (pick_latest_month files) =
     mset (filter (\<lambda>f. \<forall>g\<in>set files. (sf_year g, sf_month g) \<le> (sf_year f, sf_month f)) files) \<and>
   sorted (map sf_lang (pick_latest_month files)) \<and>
   (\<forall>l. (\<exists>g\<in>set files. \<forall>f\<in>set files.
            sf_lang f = l \<longrightarrow> (sf_year f, sf_month f) < (sf_year g, sf_month g)) \<longrightarrow>
        l \<notin> sf_lang ` set (pick_latest_month files)) \<and>
   (\<forall>(a::int) (b::int) c d. (a, b) \<le> (c, d) \<longleftrightarrow> a < c \<or> a = c \<and> b \<le> d)"
proof -
  have "l \<notin> sf_lang ` set (pick_latest_month files)"
    if "\<exists>g\<in>set files. \<forall>f\<in>set files.
            sf_lang f = l \<longrightarrow> (sf_year f, sf_month f) < (sf_year g, sf_month g)" for l
  proof
    assume "l \<in> sf_lang ` set (pick_latest_month files)"
    then obtain f where f: "f \<in> set files" "sf_lang f = l"
      "\<forall>g\<in>set files. (sf_year g, sf_month g) \<le> (sf_year f, sf_month f)"
      unfolding pick_latest_month_eq by auto
    from that obtain g where "g \<in> set files"
      "(sf_year f, sf_month f) < (sf_year g, sf_month g)" using f by blast
    with f(3) show False by fastforce
  qed
  moreover have "\<forall>(a::int) (b::int) c d. (a, b) \<le> (c, d) \<longleftrightarrow> a < c \<or> a = c \<and> b \<le> d"
    by (auto simp: less_eq_prod_def)
  moreover have "sorted (map sf_lang (pick_latest_month files))"
    by (simp add: pick_latest_month_eq)
  moreover have "mset (pick_latest_month files) =
     mset (filter (\<lambda>f. \<forall>g\<in>set files. (sf_year g, sf_month g) \<le> (sf_year f, sf_month f)) files)"
    by (simp add: pick_latest_month_eq)
  ultimately show ?thesis by blast
qed

theorem pick_latest_month_witness:
  "pick_latest_month four_files =
     [\<lparr>sf_lang = ''de'', sf_year = 2024, sf_month = 2\<rparr>,
      \<lparr>sf_lang = ''en'', sf_year = 2024, sf_month = 2\<rparr>] \<and>
   ''es'' \<notin> sf_lang ` set (pick_latest_month four_files)"
proof -
  have v: "pick_latest_month four_files =
     [\<lparr>sf_lang = ''de'', sf_year = 2024, sf_month = 2\<rparr>,
      \<lparr>sf_lang = ''en'', sf_year = 2024, sf_month = 2\<rparr>]"
    by (simp add: pick_latest_month_def four_files_def less_eq_prod_def max_def)
  have h: "\<exists>g\<in>set four_files. \<forall>f\<in>set four_files.
      sf_lang f = ''es'' \<longrightarrow> (sf_year f, sf_month f) < (sf_year g, sf_month g)"
    by (simp add: four_files_def less_prod_def)
  from pick_latest_month_keeps_global_maximum[of four_files] h
  have "''es'' \<notin> sf_lang ` set (pick_latest_month four_files)" by blast
  with v show ?thesis by simp
qed

section \<open>Column resolution in the insights builders\<close>

lemma title_expr_not_NULL:
  "prefix @ ''_title'' \<noteq> ''NULL''" "prefix @ ''_name'' \<noteq> ''NULL''"
  "''CAST('' @ prefix @ ''_id AS VARCHAR)'' \<noteq> ''NULL''"
proof -
  show "prefix @ ''_title'' \<noteq> ''NULL''"
    using arg_cong[of "prefix @ ''_title''" "''NULL''" length] by auto
  show "prefix @ ''_name'' \<noteq> ''NULL''"
    using arg_cong[of "prefix @ ''_name''" "''NULL''" length] by auto
  show "''CAST('' @ prefix @ ''_id AS VARCHAR)'' \<noteq> ''NULL''"
    by simp
qed

lemma title_expr_NULL_iff: "title_expr cols prefix = ''NULL'' \<longleftrightarrow> no_title_column cols prefix"
  by (simp add: title_expr_def no_title_column_def title_expr_not_NULL)

lemma top10_no_title:
  "no_title_column cols ''curr'' \<Longrightarrow>
   build_top10_by_year w lang overwrite years cols =
     (log_line w (if years = [] then Log_Warn_No_Data ''top10_by_year'' lang
                  else Log_Warn_No_Title ''top10_by_year'' lang), Inr ())"
  using title_expr_NULL_iff[of cols "''curr''"] by (simp add: build_top10_by_year_def)

lemma all_time_no_title:
  "no_title_column cols ''curr'' \<Longrightarrow>
   build_all_time_top w lang topn overwrite has_rows cols =
     (log_line w
        (if gold_fs w (Specifics_Path ''all_time_top'' lang None None) \<noteq> None \<and> \<not> overwrite
         then Log_Skip_Step ''all_time_top'' lang
         else if \<not> has_rows then Log_Warn_No_Data ''all_time_top'' lang
         else Log_Warn_No_Title ''all_time_top'' lang), Inr ())"
  using title_expr_NULL_iff[of cols "''curr''"] by (simp add: build_all_time_top_def)

lemma trending_no_title:
  "no_title_column cols ''curr'' \<Longrightarrow>
   build_trending_mom w lang topn overwrite latest cols =
     (log_line w
        (case latest of
           None \<Rightarrow> Log_Warn_No_Data ''trending_mom'' lang
         | Some (y, m) \<Rightarrow>
             if gold_fs w (Specifics_Path ''trending_mom'' lang (Some y) (Some m)) \<noteq> None
                \<and> \<not> overwrite
             then Log_Skip_Step ''trending_mom'' lang
             else Log_Warn_No_Title ''trending_mom'' lang), Inr ())"
  using title_expr_NULL_iff[of cols "''curr''"]
  by (simp add: build_trending_mom_def split: option.splits)

lemma edges_no_title:
  "no_title_column cols ''curr'' \<or> no_title_column cols ''prev'' \<Longrightarrow>
   build_edges_6m w lang topn overwrite latest cols =
     (log_line w
        (case latest of
           None \<Rightarrow> Log_Warn_No_Data ''edges_6m'' lang
         | Some (y, m) \<Rightarrow>
             if gold_fs w (Specifics_Path ''edges_6m'' lang (Some y) (Some m)) \<noteq> None
                \<and> \<not> overwrite
             then Log_Skip_Step ''edges_6m'' lang
             else Log_Warn_No_Title ''edges_6m'' lang), Inr ())"
  using title_expr_NULL_iff[of cols "''curr''"] title_expr_NULL_iff[of cols "''prev''"]
  by (auto simp add: build_edges_6m_def split: option.splits)

lemma referrers_no_title:
  "no_title_column cols ''curr'' \<or> no_title_column cols ''prev'' \<Longrightarrow>
   build_referrers_6m w lang topm overwrite latest cols =
     (log_line w
        (case latest of
           None \<Rightarrow> Log_Warn_No_Data ''referrers_6m'' lang
         | Some (y, m) \<Rightarrow>
             if gold_fs w (Specifics_Path ''referrers_6m'' lang (Some y) (Some m)) \<noteq> None
                \<and> \<not> overwrite
             then Log_Skip_Step ''referrers_6m'' lang
             else Log_Warn_No_Title ''referrers_6m'' lang), Inr ())"
  using title_expr_NULL_iff[of cols "''curr''"] title_expr_NULL_iff[of cols "''prev''"]
  by (auto simp add: build_referrers_6m_def split: option.splits)

text \<open>
  C9. \<^verbatim>\<open>title_expr\<close> takes \<open>prefix_title\<close> if the source has that column, else
  \<open>prefix_name\<close>, else the cast of \<open>prefix_id\<close>, and answers \<open>NULL\<close> exactly when the
  source has none of the three. In that case every builder returns without an
  exception and without writing: it prints one line, which is the warning about the
  title columns whenever the step got as far as probing them (it has data, and its
  output is absent or to be overwritten), and the no-data warning or the skip line
  of the step otherwise. The builders of edges and referrers need both the \<open>prev\<close>
  and the \<open>curr\<close> expression and give up when either is missing.
\<close>

theorem title_columns_probed_in_order:
  "(prefix @ ''_title'' \<in> cols \<longrightarrow> title_expr cols prefix = prefix @ ''_title'') \<and>
   (prefix @ ''_title'' \<notin> cols \<and> prefix @ ''_name'' \<in> cols \<longrightarrow>
      title_expr cols prefix = prefix @ ''_name'') \<and>
   (prefix @ ''_title'' \<notin> cols \<and> prefix @ ''_name'' \<notin> cols \<and> prefix @ ''_id'' \<in> cols \<longrightarrow>
      title_expr cols prefix = ''CAST('' @ prefix @ ''_id AS VARCHAR)'') \<and>
   (title_expr cols prefix = ''NULL'' \<longleftrightarrow> no_title_column cols prefix) \<and>
   (no_title_column cols ''curr'' \<longrightarrow>
      build_top10_by_year w lang overwrite years cols =
        (log_line w (if years = [] then Log_Warn_No_Data ''top10_by_year'' lang
                     else Log_Warn_No_Title ''top10_by_year'' lang), Inr ()) \<and>
      build_all_time_top w lang topn overwrite has_rows cols =
        (log_line w
           (if gold_fs w (Specifics_Path ''all_time_top'' lang None None) \<noteq> None \<and> \<not> overwrite
            then Log_Skip_Step ''all_time_top'' lang
            else if \<not> has_rows then Log_Warn_No_Data ''all_time_top'' lang
            else Log_Warn_No_Title ''all_time_top'' lang), Inr ()) \<and>
      build_trending_mom w lang topn overwrite latest cols =
        (log_line w
           (case latest of
              None \<Rightarrow> Log_Warn_No_Data ''trending_mom'' lang
            | Some (y, m) \<Rightarrow>
                if gold_fs w (Specifics_Path ''trending_mom'' lang (Some y) (Some m)) \<noteq> None
                   \<and> \<not> overwrite
                then Log_Skip_Step ''trending_mom'' lang
                else Log_Warn_No_Title ''trending_mom'' lang), Inr ())) \<and>
   (no_title_column cols ''curr'' \<or> no_title_column cols ''prev'' \<longrightarrow>
      build_edges_6m w lang topn overwrite latest cols =
        (log_line w
           (case latest of
              None \<Rightarrow> Log_Warn_No_Data ''edges_6m'' lang
            | Some (y, m) \<Rightarrow>
                if gold_fs w (Specifics_Path ''edges_6m'' lang (Some y) (Some m)) \<noteq> None
                   \<and> \<not> overwrite
                then Log_Skip_Step ''edges_6m'' lang
                else Log_Warn_No_Title ''edges_6m'' lang), Inr ()) \<and>
      build_referrers_6m w lang topn overwrite latest cols =
        (log_line w
           (case latest of
              None \<Rightarrow> Log_Warn_No_Data ''referrers_6m'' lang
            | Some (y, m) \<Rightarrow>
                if gold_fs w (Specifics_Path ''referrers_6m'' lang (Some y) (Some m)) \<noteq> None
                   \<and> \<not> overwrite
                then Log_Skip_Step ''referrers_6m'' lang
                else Log_Warn_No_Title ''referrers_6m'' lang), Inr ())) \<and>
   gold_fs (log_line w e) = gold_fs w"
proof -
  have "prefix @ ''_title'' \<in> cols \<longrightarrow> title_expr cols prefix = prefix @ ''_title''"
    by (simp add: title_expr_def)
  moreover have "prefix @ ''_title'' \<notin> cols \<and> prefix @ ''_name'' \<in> cols \<longrightarrow>
      title_expr cols prefix = prefix @ ''_name''"
    by (simp add: title_expr_def)
  moreover have "prefix @ ''_title'' \<notin> cols \<and> prefix @ ''_name'' \<notin> cols \<and>
      prefix @ ''_id'' \<in> cols \<longrightarrow> title_expr cols prefix = ''CAST('' @ prefix @ ''_id AS VARCHAR)''"
    by (simp add: title_expr_def)
  moreover have "gold_fs (log_line w e) = gold_fs w"
    by (simp add: log_line_def)
  ultimately show ?thesis
    using title_expr_NULL_iff[of cols prefix]
      top10_no_title[of cols w lang overwrite years]
      all_time_no_title[of cols w lang topn overwrite has_rows]
      trending_no_title[of cols w lang topn overwrite latest]
      edges_no_title[of cols w lang topn overwrite latest]
      referrers_no_title[of cols w lang topn overwrite latest]
    by blast
qed

theorem title_columns_probed_in_order_witness:
  "no_title_column bare_cols ''curr'' \<and>
   build_top10_by_year empty_world ''en'' False [2024] bare_cols =
     (log_line empty_world (Log_Warn_No_Title ''top10_by_year'' ''en''), Inr ()) \<and>
   ''curr_name'' \<in> insert ''curr_name'' (insert ''curr_id'' bare_cols) \<and>
   title_expr (insert ''curr_name'' (insert ''curr_id'' bare_cols)) ''curr'' = ''curr_name''"
proof -
  have h: "no_title_column bare_cols ''curr''"
    by (simp add: no_title_column_def bare_cols_def)
  have g: "''curr'' @ ''_title'' \<notin> insert ''curr_name'' (insert ''curr_id'' bare_cols) \<and>
      ''curr'' @ ''_name'' \<in> insert ''curr_name'' (insert ''curr_id'' bare_cols)"
    by (simp add: bare_cols_def)
  from title_columns_probed_in_order[of "''curr''" bare_cols empty_world "''en''" False "[2024]"] h
  have 1: "build_top10_by_year empty_world ''en'' False [2024] bare_cols =
     (log_line empty_world (Log_Warn_No_Title ''top10_by_year'' ''en''), Inr ())"
    by simp
  from title_columns_probed_in_order[of "''curr''" "insert ''curr_name'' (insert ''curr_id'' bare_cols)"] g
  have 2: "title_expr (insert ''curr_name'' (insert ''curr_id'' bare_cols)) ''curr'' = ''curr_name''"
    by simp
  from h 1 2 show ?thesis by simp
qed

section \<open>The lines printed while a partition is processed\<close>

lemma atomic_copy_cases:
  assumes "atomic_copy_query_to_parquet w q p l = (w', r)"
  shows "(r = Inl IO_Error \<and> w' = w) \<or>
         (r = Inr () \<and> w' = w\<lparr>gold_fs := (gold_fs w)(p \<mapsto> Parquet q),
                                stdout := stdout w @ [Log_Write l p]\<rparr>)"
  using assms by (auto simp: atomic_copy_query_to_parquet_def split: if_splits)

lemma dict_get_outputs:
  "dict_get (outputs_for lang year month) ''article_popularity'' = Inr (Fact_Path ''article_popularity'' lang year month)"
  "dict_get (outputs_for lang year month) ''article_top'' = Inr (Fact_Path ''article_top'' lang year month)"
  "dict_get (outputs_for lang year month) ''referrers_top'' = Inr (Fact_Path ''referrers_top'' lang year month)"
  "dict_get (outputs_for lang year month) ''edges_monthly'' = Inr (Fact_Path ''edges_monthly'' lang year month)"
  by (simp_all add: dict_get_def outputs_for_def)

lemma compute_trace:
  assumes "compute_and_write_outputs w s dim (outputs_for lang year month) topn topm min_edges min_ref
             write_edges write_ref = (w', r)"
  shows "\<exists>evs rest. stdout w' = stdout w @ evs \<and>
           fact_lines lang year month write_ref write_edges = evs @ rest \<and>
           (case r of Inr u \<Rightarrow> rest = [] | Inl e \<Rightarrow> rest \<noteq> []) \<and>
           silver_fs w' = silver_fs w \<and> copy_fails w' = copy_fails w \<and>
           (\<forall>l. gold_fs w' (Dim_Path l) = gold_fs w (Dim_Path l))"
  using assms
  unfolding compute_and_write_outputs_def write_output_def dict_get_outputs Let_def then_do_def
    atomic_copy_query_to_parquet_def fact_lines_def
  by (auto split: if_splits)


lemma load_or_init_dim_world: "load_or_init_dim w p = (w', r) \<Longrightarrow> w' = w"
  by (auto simp: load_or_init_dim_def split: option.splits if_splits disk_file.splits table.splits)

lemma run_one_partition_outcome:
  assumes run: "run_one_partition w f topn topm min_edges min_ref write_edges write_ref skip_existing
             = (w', r)"
  defines "tw \<equiv> to_write_of w (outputs_for (sf_lang f) (sf_year f) (sf_month f))
                   write_edges write_ref skip_existing"
  shows "(skip_existing \<and> tw = [] \<and> r = Inr ''skipped'' \<and>
            w' = w\<lparr>stdout := stdout w @ [Log_Skip (sf_lang f) (sf_year f) (sf_month f)]\<rparr>) \<or>
         (\<not> (skip_existing \<and> tw = []) \<and>
          (\<exists>evs rest. stdout w' = stdout w @ evs \<and>
             partition_lines (sf_lang f) (sf_year f) (sf_month f) tw write_ref write_edges
               = evs @ rest \<and>
             (case r of Inr st \<Rightarrow> st = ''processed'' \<and> rest = [] | Inl e \<Rightarrow> rest \<noteq> []) \<and>
             silver_fs w' = silver_fs w \<and> copy_fails w' = copy_fails w \<and>
             (evs \<noteq> [] \<longrightarrow>
                (\<exists>rows dim. silver_fs w f = Some rows \<and>
                   load_or_init_dim w (Dim_Path (sf_lang f)) = (w, Inr dim) \<and>
                   gold_fs w' (Dim_Path (sf_lang f)) =
                     Some (Parquet (Dim_Table (dim_merged dim (filter (\<lambda>r. 0 < sr_n r) rows))))))))"
proof (cases "skip_existing \<and> tw = []")
  case True
  from run have "(w\<lparr>stdout := stdout w @ [Log_Skip (sf_lang f) (sf_year f) (sf_month f)]\<rparr>,
      Inr ''skipped'') = (w', r)"
    unfolding run_one_partition_def Let_def tw_def[symmetric] if_P[OF True] .
  with True show ?thesis by auto
next
  case False
  let ?pl = "partition_lines (sf_lang f) (sf_year f) (sf_month f) tw write_ref write_edges"
  let ?dw = "Log_Write (''article_dim['' @ sf_lang f @ '']'') (Dim_Path (sf_lang f))"
  let ?st = "Log_Start (sf_lang f) (sf_year f) (sf_month f) tw"
  let ?ok = "Log_Ok (sf_lang f) (sf_year f) (sf_month f)"
  from run have run':
    "then_do (read_silver w f) (\<lambda>w s.
       then_do (load_or_init_dim w (Dim_Path (sf_lang f))) (\<lambda>w dim.
       then_do (update_dim_with_partition w dim s (sf_lang f) (Dim_Path (sf_lang f))) (\<lambda>w dim_idx.
       then_do (compute_and_write_outputs
                  (w\<lparr>stdout := stdout w @ [Log_Start (sf_lang f) (sf_year f) (sf_month f) tw]\<rparr>)
                  s dim_idx (outputs_for (sf_lang f) (sf_year f) (sf_month f))
                  topn topm min_edges min_ref write_edges write_ref) (\<lambda>w u.
       (w\<lparr>stdout := stdout w @ [Log_Ok (sf_lang f) (sf_year f) (sf_month f)]\<rparr>,
        Inr ''processed''))))) = (w', r)"
    unfolding run_one_partition_def Let_def tw_def[symmetric] if_not_P[OF False] dim_path_for_def .
  have ne: "?pl \<noteq> []" by (simp add: partition_lines_def)
  have early: ?thesis if "w' = w" "r = Inl e" for e
  proof -
    have "stdout w' = stdout w @ [] \<and> ?pl = [] @ ?pl \<and>
        (case r of Inr st \<Rightarrow> st = ''processed'' \<and> ?pl = [] | Inl e \<Rightarrow> ?pl \<noteq> []) \<and>
        silver_fs w' = silver_fs w \<and> copy_fails w' = copy_fails w \<and>
        ([] \<noteq> ([] :: event list) \<longrightarrow> (\<exists>rows dim. silver_fs w f = Some rows \<and>
                   load_or_init_dim w (Dim_Path (sf_lang f)) = (w, Inr dim) \<and>
                   gold_fs w' (Dim_Path (sf_lang f)) =
                     Some (Parquet (Dim_Table (dim_merged dim (filter (\<lambda>r. 0 < sr_n r) rows))))))"
      using that ne by simp
    then show ?thesis using False by blast
  qed
  show ?thesis
  proof (cases "silver_fs w f")
    case None
    with run' have "w' = w" "r = Inl IO_Error"
      by (simp_all add: read_silver_def then_do_def)
    then show ?thesis by (rule early)
  next
    case (Some rows)
    let ?s = "filter (\<lambda>r. 0 < sr_n r) rows"
    obtain w0 rd where ld: "load_or_init_dim w (Dim_Path (sf_lang f)) = (w0, rd)"
      by (cases "load_or_init_dim w (Dim_Path (sf_lang f))")
    then have w0: "w0 = w" by (rule load_or_init_dim_world)
    show ?thesis
    proof (cases rd)
      case (Inl e)
      with run' Some ld w0 have "w' = w" "r = Inl e"
        by (simp_all add: read_silver_def then_do_def)
      then show ?thesis by (rule early)
    next
      case (Inr dim)
      note rd = this
      show ?thesis
      proof (cases "Dim_Path (sf_lang f) \<in> copy_fails w")
        case True
        with run' Some ld w0 rd have "w' = w" "r = Inl IO_Error"
          by (simp_all add: read_silver_def then_do_def update_dim_with_partition_def
              atomic_copy_query_to_parquet_def)
        then show ?thesis by (rule early)
      next
        case nofail: False
        define w1 where "w1 = w\<lparr>gold_fs := (gold_fs w)(Dim_Path (sf_lang f) \<mapsto>
              Parquet (Dim_Table (dim_merged dim ?s))),
            stdout := stdout w @ [?dw, ?st]\<rparr>"
        obtain w2 rc where cw: "compute_and_write_outputs w1 ?s (dim_merged dim ?s)
              (outputs_for (sf_lang f) (sf_year f) (sf_month f))
              topn topm min_edges min_ref write_edges write_ref = (w2, rc)"
          by (cases "compute_and_write_outputs w1 ?s (dim_merged dim ?s)
              (outputs_for (sf_lang f) (sf_year f) (sf_month f))
              topn topm min_edges min_ref write_edges write_ref")
        from compute_trace[OF cw] obtain evs rest where tr:
          "stdout w2 = stdout w1 @ evs"
          "fact_lines (sf_lang f) (sf_year f) (sf_month f) write_ref write_edges = evs @ rest"
          "case rc of Inr u \<Rightarrow> rest = [] | Inl e \<Rightarrow> rest \<noteq> []"
          "silver_fs w2 = silver_fs w1" "copy_fails w2 = copy_fails w1"
          "\<forall>l. gold_fs w2 (Dim_Path l) = gold_fs w1 (Dim_Path l)"
          by blast
        from run' Some ld w0 rd nofail cw have fin:
          "(w', r) = (case rc of Inl e \<Rightarrow> (w2, Inl e)
              | Inr u \<Rightarrow> (w2\<lparr>stdout := stdout w2 @ [?ok]\<rparr>, Inr ''processed''))"
          by (simp add: read_silver_def then_do_def update_dim_with_partition_def
              atomic_copy_query_to_parquet_def w1_def split: sum.splits)
        have dimfile: "gold_fs w2 (Dim_Path (sf_lang f)) =
            Some (Parquet (Dim_Table (dim_merged dim ?s)))"
          using tr(6) by (simp add: w1_def)
        have dict: "\<exists>rows dim. silver_fs w f = Some rows \<and>
                   load_or_init_dim w (Dim_Path (sf_lang f)) = (w, Inr dim) \<and>
                   gold_fs w2 (Dim_Path (sf_lang f)) =
                     Some (Parquet (Dim_Table (dim_merged dim (filter (\<lambda>r. 0 < sr_n r) rows))))"
          using Some ld w0 rd dimfile by blast
        have frame: "silver_fs w2 = silver_fs w" "copy_fails w2 = copy_fails w"
          using tr(4,5) by (simp_all add: w1_def)
        show ?thesis
        proof (cases rc)
          case (Inl e)
          with fin have w': "w' = w2" and r: "r = Inl e" by simp_all
          from Inl tr(3) have rest: "rest \<noteq> []" by simp
          have "stdout w' = stdout w @ (?dw # ?st # evs) \<and>
              ?pl = (?dw # ?st # evs) @ (rest @ [?ok]) \<and>
              (case r of Inr st \<Rightarrow> st = ''processed'' \<and> rest @ [?ok] = [] | Inl e \<Rightarrow> rest @ [?ok] \<noteq> []) \<and>
              silver_fs w' = silver_fs w \<and> copy_fails w' = copy_fails w \<and>
              (?dw # ?st # evs \<noteq> [] \<longrightarrow> (\<exists>rows dim. silver_fs w f = Some rows \<and>
                   load_or_init_dim w (Dim_Path (sf_lang f)) = (w, Inr dim) \<and>
                   gold_fs w' (Dim_Path (sf_lang f)) =
                     Some (Parquet (Dim_Table (dim_merged dim (filter (\<lambda>r. 0 < sr_n r) rows))))))"
            using tr(1,2) dict frame by (simp add: w' r w1_def partition_lines_def)
          then show ?thesis using False by blast
        next
          case (Inr u)
          with fin have w': "w' = w2\<lparr>stdout := stdout w2 @ [?ok]\<rparr>"
            and r: "r = Inr ''processed''" by simp_all
          from Inr tr(3) have "rest = []" by simp
          with tr(2) have fl: "fact_lines (sf_lang f) (sf_year f) (sf_month f) write_ref write_edges = evs"
            by simp
          have "stdout w' = stdout w @ ?pl \<and> ?pl = ?pl @ [] \<and>
              (case r of Inr st \<Rightarrow> st = ''processed'' \<and> [] = ([] :: event list) | Inl e \<Rightarrow> [] \<noteq> ([] :: event list)) \<and>
              silver_fs w' = silver_fs w \<and> copy_fails w' = copy_fails w \<and>
              (?pl \<noteq> [] \<longrightarrow> (\<exists>rows dim. silver_fs w f = Some rows \<and>
                   load_or_init_dim w (Dim_Path (sf_lang f)) = (w, Inr dim) \<and>
                   gold_fs w' (Dim_Path (sf_lang f)) =
                     Some (Parquet (Dim_Table (dim_merged dim (filter (\<lambda>r. 0 < sr_n r) rows))))))"
            using tr(1) fl dict frame by (simp add: w' r w1_def partition_lines_def)
          then show ?thesis using False by blast
        qed
      qed
    qed
  qed
qed

lemma map_filter_append: "List.map_filter g (xs @ ys) = List.map_filter g xs @ List.map_filter g ys"
  by (simp add: List.map_filter_def)

lemma fact_lines_quiet:
  "List.map_filter ended (fact_lines l y m wr we) = []"
  "filter is_ok (fact_lines l y m wr we) = []"
  "filter is_skip (fact_lines l y m wr we) = []"
  "filter is_error (fact_lines l y m wr we) = []"
  by (simp_all add: fact_lines_def List.map_filter_def)

lemma prefix_quiet:
  assumes "xs = evs @ rest" "List.map_filter ended xs = []"
  shows "List.map_filter ended evs = []"
  using assms by (simp add: map_filter_append)

lemma filter_prefix_nil:
  assumes "xs = evs @ rest" "filter P xs = []"
  shows "filter P evs = []"
  using assms by simp

lemma partition_lines_prefix:
  assumes "partition_lines l y m tw wr we = evs @ rest" "rest \<noteq> []"
  shows "List.map_filter ended evs = [] \<and> filter is_ok evs = [] \<and> filter is_skip evs = []
         \<and> filter is_error evs = []"
proof -
  let ?body = "Log_Write (''article_dim['' @ l @ '']'') (Dim_Path l) # Log_Start l y m tw
      # fact_lines l y m wr we"
  from assms have "?body @ [Log_Ok l y m] = (evs @ butlast rest) @ [last rest]"
    by (simp add: partition_lines_def)
  then have b: "?body = evs @ butlast rest"
    using append1_eq_conv by blast
  have q: "List.map_filter ended ?body = []" "filter is_ok ?body = []"
    "filter is_skip ?body = []" "filter is_error ?body = []"
    using fact_lines_quiet[of l y m wr we] by (simp_all add: List.map_filter_def)
  show ?thesis
    using prefix_quiet[OF b q(1)] filter_prefix_nil[OF b q(2)] filter_prefix_nil[OF b q(3)]
      filter_prefix_nil[OF b q(4)] by simp
qed

lemma partition_lines_full:
  "List.map_filter ended (partition_lines l y m tw wr we) = [(y, m)]"
  "filter is_ok (partition_lines l y m tw wr we) = [Log_Ok l y m]"
  "filter is_skip (partition_lines l y m tw wr we) = []"
  "filter is_error (partition_lines l y m tw wr we) = []"
  using fact_lines_quiet[of l y m wr we]
  by (simp_all add: partition_lines_def List.map_filter_def)

lemma run_one_partition_ended:
  assumes "run_one_partition w f topn topm min_edges min_ref write_edges write_ref skip_existing
             = (w', r)"
  shows "\<exists>evs. stdout w' = stdout w @ evs \<and> filter is_error evs = [] \<and>
           (case r of
              Inl e \<Rightarrow> List.map_filter ended evs = [] \<and> filter is_ok evs = [] \<and> filter is_skip evs = []
            | Inr st \<Rightarrow> List.map_filter ended evs = [(sf_year f, sf_month f)] \<and>
                length (filter is_ok evs) = (if st = ''processed'' then 1 else 0) \<and>
                length (filter is_skip evs) = (if st \<noteq> ''processed'' then 1 else 0))"
  using run_one_partition_outcome[OF assms]
proof (elim disjE conjE exE)
  assume "r = Inr ''skipped''"
    "w' = w\<lparr>stdout := stdout w @ [Log_Skip (sf_lang f) (sf_year f) (sf_month f)]\<rparr>"
  then show ?thesis
    by (intro exI[of _ "[Log_Skip (sf_lang f) (sf_year f) (sf_month f)]"])
      (simp add: List.map_filter_def)
next
  fix evs rest
  let ?tw = "to_write_of w (outputs_for (sf_lang f) (sf_year f) (sf_month f)) write_edges
      write_ref skip_existing"
  assume a: "stdout w' = stdout w @ evs"
    "partition_lines (sf_lang f) (sf_year f) (sf_month f) ?tw write_ref write_edges = evs @ rest"
    "case r of Inl e \<Rightarrow> rest \<noteq> [] | Inr st \<Rightarrow> st = ''processed'' \<and> rest = []"
  show ?thesis
  proof (cases r)
    case (Inl e)
    with a(3) have "rest \<noteq> []" by simp
    from partition_lines_prefix[OF a(2) this] a(1) Inl show ?thesis by auto
  next
    case (Inr st)
    with a(3) have "st = ''processed''" "rest = []" by simp_all
    with a(2) have "evs = partition_lines (sf_lang f) (sf_year f) (sf_month f) ?tw write_ref write_edges"
      by simp
    with a(1) Inr \<open>st = ''processed''\<close> show ?thesis
      by (intro exI[of _ evs]) (simp add: partition_lines_full)
  qed
qed

lemma process_one_ended:
  assumes "process_one lang topn topm min_edges min_ref write_edges write_ref skip_existing
             (w, p, s) f = (w', p', s')"
  shows "\<exists>evs. stdout w' = stdout w @ evs \<and>
           List.map_filter ended evs = [(sf_year f, sf_month f)] \<and>
           p' = p + length (filter is_ok evs) \<and>
           s' = s + length (filter is_skip evs) + length (filter is_error evs) \<and>
           p' + s' = p + s + 1"
proof -
  obtain w1 r where run: "run_one_partition w f topn topm min_edges min_ref write_edges write_ref
      skip_existing = (w1, r)"
    by (cases "run_one_partition w f topn topm min_edges min_ref write_edges write_ref skip_existing")
  from run_one_partition_ended[OF run] obtain evs where e:
    "stdout w1 = stdout w @ evs" "filter is_error evs = []"
    "case r of
       Inl e \<Rightarrow> List.map_filter ended evs = [] \<and> filter is_ok evs = [] \<and> filter is_skip evs = []
     | Inr st \<Rightarrow> List.map_filter ended evs = [(sf_year f, sf_month f)] \<and>
         length (filter is_ok evs) = (if st = ''processed'' then 1 else 0) \<and>
         length (filter is_skip evs) = (if st \<noteq> ''processed'' then 1 else 0)"
    by blast
  show ?thesis
  proof (cases r)
    case (Inl x)
    with assms run have "w' = w1\<lparr>stdout := stdout w1 @ [Log_Error lang (sf_year f) (sf_month f)]\<rparr>"
      "p' = p" "s' = s + 1"
      by (simp_all add: process_one_def)
    with e Inl show ?thesis
      by (intro exI[of _ "evs @ [Log_Error lang (sf_year f) (sf_month f)]"])
        (simp add: List.map_filter_def)
  next
    case (Inr st)
    with assms run have "w' = w1"
      "p' = p + (if st = ''processed'' then 1 else 0)"
      "s' = s + (if st \<noteq> ''processed'' then 1 else 0)"
      by (simp_all add: process_one_def)
    with e Inr show ?thesis
      by (intro exI[of _ evs]) simp
  qed
qed

lemma foldl_process_one_ended:
  assumes "foldl (process_one lang topn topm min_edges min_ref write_edges write_ref skip_existing)
             (w, p, s) fs = (w', p', s')"
  shows "\<exists>evs. stdout w' = stdout w @ evs \<and>
           List.map_filter ended evs = map (\<lambda>f. (sf_year f, sf_month f)) fs \<and>
           p' = p + length (filter is_ok evs) \<and>
           s' = s + length (filter is_skip evs) + length (filter is_error evs) \<and>
           p' + s' = p + s + length fs"
  using assms
proof (induction fs arbitrary: w p s)
  case Nil
  then show ?case by (intro exI[of _ "[]"]) (simp add: List.map_filter_def)
next
  case (Cons f fs)
  obtain w1 p1 s1 where one: "process_one lang topn topm min_edges min_ref write_edges write_ref
      skip_existing (w, p, s) f = (w1, p1, s1)"
    by (cases "process_one lang topn topm min_edges min_ref write_edges write_ref
      skip_existing (w, p, s) f")
  with Cons.prems have rest: "foldl (process_one lang topn topm min_edges min_ref write_edges
      write_ref skip_existing) (w1, p1, s1) fs = (w', p', s')"
    by simp
  from process_one_ended[OF one] obtain evs1 where e1:
    "stdout w1 = stdout w @ evs1" "List.map_filter ended evs1 = [(sf_year f, sf_month f)]"
    "p1 = p + length (filter is_ok evs1)"
    "s1 = s + length (filter is_skip evs1) + length (filter is_error evs1)"
    "p1 + s1 = p + s + 1"
    by blast
  from Cons.IH[OF rest] obtain evs2 where e2:
    "stdout w' = stdout w1 @ evs2"
    "List.map_filter ended evs2 = map (\<lambda>f. (sf_year f, sf_month f)) fs"
    "p' = p1 + length (filter is_ok evs2)"
    "s' = s1 + length (filter is_skip evs2) + length (filter is_error evs2)"
    "p' + s' = p1 + s1 + length fs"
    by blast
  from e1 e2 show ?case
    by (intro exI[of _ "evs1 @ evs2"]) (simp add: map_filter_append)
qed

lemmas eval_run = process_lang_def process_one_def run_one_partition_def to_write_of_def
  missing_outputs_def outputs_for_def read_silver_def load_or_init_dim_def
  update_dim_with_partition_def compute_and_write_outputs_def write_output_def dict_get_def
  atomic_copy_query_to_parquet_def then_do_def dim_path_for_def Let_def


lemma partition_lines_writes:
  assumes "Log_Write label out \<in> set (partition_lines l y m tw wr we)" "out \<noteq> Dim_Path l"
  shows "\<exists>name. out = Fact_Path name l y m"
  using assms by (auto simp: partition_lines_def fact_lines_def split: if_splits)

text \<open>
  C7. In the lines that one call of \<^verbatim>\<open>run_one_partition\<close> prints, whether it
  returns or raises, every written file other than the dictionary is a fact file of
  the partition at hand and comes after the line of the dictionary write of the
  same call; when such a line is printed the dictionary file holds the dimension
  merged with the titles of this partition. A call that returns \<open>processed\<close> has
  written facts, hence the dictionary before them.
\<close>

theorem dictionary_written_before_facts:
  assumes "run_one_partition w f topn topm min_edges min_ref write_edges write_ref skip_existing
             = (w', r)"
  shows "\<exists>evs. stdout w' = stdout w @ evs \<and>
           (\<forall>i<length evs. \<forall>label out.
               evs ! i = Log_Write label out \<and> out \<noteq> Dim_Path (sf_lang f) \<longrightarrow>
               (\<exists>name. out = Fact_Path name (sf_lang f) (sf_year f) (sf_month f)) \<and>
               (\<exists>j<i. \<exists>lbl. evs ! j = Log_Write lbl (Dim_Path (sf_lang f))) \<and>
               (\<exists>rows dim. silver_fs w f = Some rows \<and>
                  load_or_init_dim w (Dim_Path (sf_lang f)) = (w, Inr dim) \<and>
                  gold_fs w' (Dim_Path (sf_lang f)) =
                    Some (Parquet (Dim_Table (dim_merged dim (filter (\<lambda>r. 0 < sr_n r) rows)))))) \<and>
           (r = Inr ''processed'' \<longrightarrow>
              (\<exists>i<length evs. \<exists>label name.
                 evs ! i = Log_Write label (Fact_Path name (sf_lang f) (sf_year f) (sf_month f))))"
  using run_one_partition_outcome[OF assms]
proof (elim disjE conjE exE)
  assume "r = Inr ''skipped''"
    "w' = w\<lparr>stdout := stdout w @ [Log_Skip (sf_lang f) (sf_year f) (sf_month f)]\<rparr>"
  then show ?thesis
    by (intro exI[of _ "[Log_Skip (sf_lang f) (sf_year f) (sf_month f)]"]) simp
next
  fix evs rest
  let ?tw = "to_write_of w (outputs_for (sf_lang f) (sf_year f) (sf_month f)) write_edges
      write_ref skip_existing"
  let ?pl = "partition_lines (sf_lang f) (sf_year f) (sf_month f) ?tw write_ref write_edges"
  assume a: "stdout w' = stdout w @ evs" "?pl = evs @ rest"
    "case r of Inl e \<Rightarrow> rest \<noteq> [] | Inr st \<Rightarrow> st = ''processed'' \<and> rest = []"
    "evs \<noteq> [] \<longrightarrow>
       (\<exists>rows dim. silver_fs w f = Some rows \<and>
          load_or_init_dim w (Dim_Path (sf_lang f)) = (w, Inr dim) \<and>
          gold_fs w' (Dim_Path (sf_lang f)) =
            Some (Parquet (Dim_Table (dim_merged dim (filter (\<lambda>r. 0 < sr_n r) rows)))))"
  have nth: "evs ! i = ?pl ! i" if "i < length evs" for i
    using that a(2) by (simp add: nth_append)
  have first: "?pl ! 0 = Log_Write (''article_dim['' @ sf_lang f @ '']'') (Dim_Path (sf_lang f))"
    by (simp add: partition_lines_def)
  have main: "(\<exists>name. out = Fact_Path name (sf_lang f) (sf_year f) (sf_month f)) \<and>
      (\<exists>j<i. \<exists>lbl. evs ! j = Log_Write lbl (Dim_Path (sf_lang f))) \<and>
      (\<exists>rows dim. silver_fs w f = Some rows \<and>
          load_or_init_dim w (Dim_Path (sf_lang f)) = (w, Inr dim) \<and>
          gold_fs w' (Dim_Path (sf_lang f)) =
            Some (Parquet (Dim_Table (dim_merged dim (filter (\<lambda>r. 0 < sr_n r) rows)))))"
    if i: "i < length evs" and e: "evs ! i = Log_Write label out" and o: "out \<noteq> Dim_Path (sf_lang f)"
    for i label out
  proof -
    from i have "evs \<noteq> []" by auto
    from i e have "Log_Write label out \<in> set evs" by (metis nth_mem)
    then have "Log_Write label out \<in> set ?pl" using a(2) by simp
    from partition_lines_writes[OF this o]
    have 1: "\<exists>name. out = Fact_Path name (sf_lang f) (sf_year f) (sf_month f)" .
    have "0 < i"
    proof (rule ccontr)
      assume "\<not> 0 < i"
      then have "i = 0" by simp
      with nth[OF i] e first have "out = Dim_Path (sf_lang f)" by simp
      with o show False by simp
    qed
    moreover have "evs ! 0 = Log_Write (''article_dim['' @ sf_lang f @ '']'') (Dim_Path (sf_lang f))"
      using nth[of 0] \<open>evs \<noteq> []\<close> first by simp
    ultimately have 2: "\<exists>j<i. \<exists>lbl. evs ! j = Log_Write lbl (Dim_Path (sf_lang f))" by blast
    from 1 2 a(4) \<open>evs \<noteq> []\<close> show ?thesis by blast
  qed
  have fin: "\<exists>i<length evs. \<exists>label name.
      evs ! i = Log_Write label (Fact_Path name (sf_lang f) (sf_year f) (sf_month f))"
    if "r = Inr ''processed''"
  proof -
    from that a(3) have "rest = []" by simp
    with a(2) have "evs = ?pl" by simp
    then have "2 < length evs \<and>
        evs ! 2 = Log_Write ''article_popularity''
          (Fact_Path ''article_popularity'' (sf_lang f) (sf_year f) (sf_month f))"
      by (simp add: partition_lines_def fact_lines_def)
    then show ?thesis by blast
  qed
  from a(1) main fin show ?thesis by blast
qed


lemma scenario_jan_processed:
  "snd (run_one_partition scenario_world en_jan 1000 50 1 1 True True True) = Inr ''processed''"
  by (simp add: eval_run scenario_world_def en_jan_def en_feb_def)

theorem dictionary_written_before_facts_witness:
  "snd (run_one_partition scenario_world en_jan 1000 50 1 1 True True True) = Inr ''processed'' \<and>
   (\<exists>evs. stdout (fst (run_one_partition scenario_world en_jan 1000 50 1 1 True True True)) = evs \<and>
      (\<exists>i<length evs. \<exists>label name.
         evs ! i = Log_Write label (Fact_Path name ''en'' 2024 1) \<and>
         (\<exists>j<i. \<exists>lbl. evs ! j = Log_Write lbl (Dim_Path ''en''))))"
proof -
  let ?run = "run_one_partition scenario_world en_jan 1000 50 1 1 True True True"
  have eq: "?run = (fst ?run, snd ?run)" by simp
  have nil: "stdout scenario_world = []" by (simp add: scenario_world_def)
  have en: "sf_lang en_jan = ''en''" "sf_year en_jan = 2024" "sf_month en_jan = 1"
    by (simp_all add: en_jan_def)
  from dictionary_written_before_facts[OF eq] obtain evs where e:
    "stdout (fst ?run) = stdout scenario_world @ evs"
    "\<forall>i<length evs. \<forall>label out.
        evs ! i = Log_Write label out \<and> out \<noteq> Dim_Path (sf_lang en_jan) \<longrightarrow>
        (\<exists>name. out = Fact_Path name (sf_lang en_jan) (sf_year en_jan) (sf_month en_jan)) \<and>
        (\<exists>j<i. \<exists>lbl. evs ! j = Log_Write lbl (Dim_Path (sf_lang en_jan)))"
    "snd ?run = Inr ''processed'' \<longrightarrow>
       (\<exists>i<length evs. \<exists>label name.
          evs ! i = Log_Write label
            (Fact_Path name (sf_lang en_jan) (sf_year en_jan) (sf_month en_jan)))"
    by blast
  from e(3) scenario_jan_processed obtain i label name where i:
    "i < length evs" "evs ! i = Log_Write label (Fact_Path name ''en'' 2024 1)"
    unfolding en by blast
  with e(2) have "\<exists>j<i. \<exists>lbl. evs ! j = Log_Write lbl (Dim_Path ''en'')"
    unfolding en by blast
  with i e(1) nil scenario_jan_processed show ?thesis by auto
qed

text \<open>
  C8. \<^verbatim>\<open>process_lang\<close> closes the partitions one after the other in ascending
  (year, month) order, each file of the list exactly once, whether the calls return
  or raise: the closing lines (skip, ok, error) name the sorted (year, month) list.
  The counter of processed partitions counts the ok lines, the counter of skipped
  ones the skip and the error lines, and together they count every file. An
  exception of \<^verbatim>\<open>run_one_partition\<close> becomes an error line and one more skipped
  partition, and the loop goes on from the world the call left.
\<close>

theorem partitions_in_order_despite_errors:
  assumes "process_lang w lang files topn topm min_edges min_ref write_edges write_ref skip_existing
             = (w', processed, skipped)"
  shows "\<exists>evs. stdout w' = stdout w @ evs \<and>
           List.map_filter ended evs =
             map (\<lambda>f. (sf_year f, sf_month f)) (sort_key (\<lambda>p. (sf_year p, sf_month p)) files) \<and>
           sorted (List.map_filter ended evs) \<and>
           mset (sort_key (\<lambda>p. (sf_year p, sf_month p)) files) = mset files \<and>
           processed = length (filter is_ok evs) \<and>
           skipped = length (filter is_skip evs) + length (filter is_error evs) \<and>
           processed + skipped = length files \<and>
           (\<forall>w0 p s f w1 e.
              run_one_partition w0 f topn topm min_edges min_ref write_edges write_ref skip_existing
                = (w1, Inl e) \<longrightarrow>
              process_one lang topn topm min_edges min_ref write_edges write_ref skip_existing
                (w0, p, s) f
                = (w1\<lparr>stdout := stdout w1 @ [Log_Error lang (sf_year f) (sf_month f)]\<rparr>, p, s + 1))"
proof -
  from assms have "foldl (process_one lang topn topm min_edges min_ref write_edges write_ref
      skip_existing) (w, 0, 0) (sort_key (\<lambda>p. (sf_year p, sf_month p)) files)
      = (w', processed, skipped)"
    by (simp add: process_lang_def)
  from foldl_process_one_ended[OF this] obtain evs where e:
    "stdout w' = stdout w @ evs"
    "List.map_filter ended evs =
       map (\<lambda>f. (sf_year f, sf_month f)) (sort_key (\<lambda>p. (sf_year p, sf_month p)) files)"
    "processed = 0 + length (filter is_ok evs)"
    "skipped = 0 + length (filter is_skip evs) + length (filter is_error evs)"
    "processed + skipped = 0 + 0 + length (sort_key (\<lambda>p. (sf_year p, sf_month p)) files)"
    by blast
  have "sorted (map (\<lambda>f. (sf_year f, sf_month f)) (sort_key (\<lambda>p. (sf_year p, sf_month p)) files))"
    by (rule sorted_sort_key)
  with e show ?thesis
    by (intro exI[of _ evs]) (simp add: process_one_def)
qed

theorem partitions_in_order_despite_errors_witness:
  "snd (process_lang scenario_world ''en'' [en_feb, en_dec, en_jan] 1000 50 1 1 True True True)
     = (2, 1) \<and>
   silver_fs scenario_world en_dec = None \<and>
   List.map_filter ended
     (stdout (fst (process_lang scenario_world ''en'' [en_feb, en_dec, en_jan] 1000 50 1 1
                     True True True)))
     = [(2023, 12), (2024, 1), (2024, 2)]"
proof -
  let ?run = "process_lang scenario_world ''en'' [en_feb, en_dec, en_jan] 1000 50 1 1 True True True"
  have counts: "snd ?run = (2, 1)"
    by (simp add: eval_run scenario_world_def en_dec_def en_jan_def en_feb_def less_eq_prod_def)
  then have eq: "?run = (fst ?run, 2, 1)"
    by (metis prod.collapse)
  have nil: "stdout scenario_world = []" by (simp add: scenario_world_def)
  have srt: "map (\<lambda>f. (sf_year f, sf_month f))
      (sort_key (\<lambda>p. (sf_year p, sf_month p)) [en_feb, en_dec, en_jan])
      = [(2023, 12), (2024, 1), (2024, 2)]"
    by (simp add: en_dec_def en_jan_def en_feb_def less_eq_prod_def)
  have unreadable: "silver_fs scenario_world en_dec = None"
    by (simp add: scenario_world_def en_dec_def en_jan_def en_feb_def)
  from partitions_in_order_despite_errors[OF eq] nil srt
  have "List.map_filter ended (stdout (fst ?run)) = [(2023, 12), (2024, 1), (2024, 2)]"
    by auto
  with counts unreadable show ?thesis by simp
qed

end
